theory Spec2Isabelle
  imports Complex_Main "HOL-Library.Word" "HOL-Library.Log_Nat"
begin

section \<open>SimpleNVGPUInfo: a shallow embedding of \<^verbatim>\<open>main.cpp\<close>\<close>

text \<open>
  The program polls NVAPI for the clocks, temperature, fan speed and memory usage of every
  physical GPU and prints them once per second. The embedding follows \<^verbatim>\<open>main.cpp\<close>
  function by function and keeps its names. What the program writes and which calls with
  an outside effect it makes are recorded as a list of effects, in program order.
\<close>

subsection \<open>Data\<close>

type_synonym NvU32 = "32 word"

text \<open>
  \<^verbatim>\<open>NvAPI_Status\<close> is a C enum; the program only compares it with \<^verbatim>\<open>NVAPI_OK\<close> and
  prints it after a cast to \<^verbatim>\<open>unsigned int\<close>, so it is kept as its 32-bit pattern.
\<close>

type_synonym NvAPI_Status = "32 word"

definition NVAPI_OK :: NvAPI_Status where
  "NVAPI_OK = 0"

datatype NvPhysicalGpuHandle = Handle nat

record GPUInfo =
  physical_gpu :: NvPhysicalGpuHandle
  name :: string
  vram_in_kb :: NvU32

text \<open>
  The NVAPI structures, reduced to the fields the program reads. The arrays
  \<^verbatim>\<open>domain[NVAPI_MAX_GPU_PUBLIC_CLOCKS]\<close> and \<^verbatim>\<open>sensor[NVAPI_MAX_THERMAL_SENSORS_PER_GPU]\<close>
  are lists; reading one beyond its length is as unspecified here as it is undefined in C++.
  The header \<^verbatim>\<open>nvapi.h\<close> is not part of the repository: the values of \<^verbatim>\<open>NVAPI_OK\<close> and
  of the two clock domains are those of NVIDIA's header, and no theorem below depends on
  them except through the sample machine.
\<close>

datatype NV_GPU_CLOCK_FREQUENCIES_CLOCK_TYPE =
  NV_GPU_CLOCK_FREQUENCIES_CURRENT_FREQ
  | NV_GPU_CLOCK_FREQUENCIES_BASE_CLOCK
  | NV_GPU_CLOCK_FREQUENCIES_BOOST_CLOCK

record NV_GPU_CLOCK_DOMAIN =
  bIsPresent :: bool
  frequency :: NvU32

record NV_GPU_CLOCK_FREQUENCIES =
  ClockType :: NV_GPU_CLOCK_FREQUENCIES_CLOCK_TYPE
  domain :: "NV_GPU_CLOCK_DOMAIN list"

definition NVAPI_GPU_PUBLIC_CLOCK_GRAPHICS :: NvU32 where
  "NVAPI_GPU_PUBLIC_CLOCK_GRAPHICS = 0"

definition NVAPI_GPU_PUBLIC_CLOCK_MEMORY :: NvU32 where
  "NVAPI_GPU_PUBLIC_CLOCK_MEMORY = 4"

record NV_GPU_THERMAL_SENSOR =
  currentTemp :: "32 word"

record NV_GPU_THERMAL_SETTINGS =
  count :: NvU32
  sensor :: "NV_GPU_THERMAL_SENSOR list"

record NV_DISPLAY_DRIVER_MEMORY_INFO =
  curAvailableDedicatedVideoMemory :: NvU32

text \<open>
  NVAPI itself is outside the repository. Each entry point is a field of the record below:
  it returns the status and what the call leaves in its out-parameter. The tachometer
  call also takes the value its out-parameter holds before the call, because the program
  prints that variable whatever the status is.
\<close>

record NvAPI =
  NvAPI_Initialize :: NvAPI_Status
  NvAPI_EnumPhysicalGPUs :: "NvAPI_Status \<times> NvPhysicalGpuHandle list"
  NvAPI_GPU_GetFullName :: "NvPhysicalGpuHandle \<Rightarrow> NvAPI_Status \<times> string"
  NvAPI_GPU_GetPhysicalFrameBufferSize :: "NvPhysicalGpuHandle \<Rightarrow> NvAPI_Status \<times> NvU32"
  NvAPI_GPU_GetAllClockFrequencies ::
    "NvPhysicalGpuHandle \<Rightarrow> NV_GPU_CLOCK_FREQUENCIES_CLOCK_TYPE
      \<Rightarrow> NvAPI_Status \<times> NV_GPU_CLOCK_FREQUENCIES"
  NvAPI_GPU_GetThermalSettings :: "NvPhysicalGpuHandle \<Rightarrow> NvAPI_Status \<times> NV_GPU_THERMAL_SETTINGS"
  NvAPI_GPU_GetTachReading :: "NvPhysicalGpuHandle \<Rightarrow> NvU32 \<Rightarrow> NvAPI_Status \<times> NvU32"
  NvAPI_GPU_GetMemoryInfo :: "NvPhysicalGpuHandle \<Rightarrow> NvAPI_Status \<times> NV_DISPLAY_DRIVER_MEMORY_INFO"

datatype effect =
  Stdout string
  | Stderr string
  | NvAPI_Unload
  | Sleep nat

subsection \<open>The C runtime's formatting\<close>

definition digit_char :: "nat \<Rightarrow> char" where
  "digit_char d = ''0123456789ABCDEF'' ! d"

text \<open>\<^verbatim>\<open>%u\<close>: the decimal digits of an unsigned value.\<close>

fun show_nat :: "nat \<Rightarrow> string" where
  "show_nat n = (if n < 10 then [digit_char n] else show_nat (n div 10) @ [digit_char (n mod 10)])"

declare show_nat.simps [simp del]

text \<open>\<^verbatim>\<open>%d\<close>: a signed value.\<close>

definition show_int :: "int \<Rightarrow> string" where
  "show_int i = (if i < 0 then ''-'' @ show_nat (nat (- i)) else show_nat (nat i))"

text \<open>\<^verbatim>\<open>%08X\<close>: eight upper-case hexadecimal digits of a 32-bit value.\<close>

definition show_hex8 :: "32 word \<Rightarrow> string" where
  "show_hex8 w = map (\<lambda>i. digit_char (unat w div 16 ^ i mod 16)) [7, 6, 5, 4, 3, 2, 1, 0]"

text \<open>
  \<^verbatim>\<open>_snprintf_s(buf, size, _TRUNCATE, ...)\<close> keeps as much of the formatted text as fits
  in the buffer beside the terminating zero.
\<close>

definition snprintf_s :: "nat \<Rightarrow> string \<Rightarrow> string" where
  "snprintf_s sizeOfBuffer s = take (sizeOfBuffer - 1) s"

definition newline :: string where
  "newline = [CHR 0x0A]"

definition tab :: string where
  "tab = [CHR 0x09]"

subsection \<open>Single-precision arithmetic\<close>

text \<open>
  A finite non-negative \<^verbatim>\<open>float\<close> is a pair \<open>(m, e)\<close> that stands for \<open>m * 2 ^ e\<close>.
  Conversions and divisions round the exact result to the nearest value with a 24-bit
  significand, ties to even (IEEE 754 binary32 in its default rounding mode). All values
  the program forms lie between \<open>1 / 1000\<close> and \<open>2 ^ 32\<close>, far inside the normal range, so
  subnormal numbers and overflow are left out.
\<close>

type_synonym binary32 = "nat \<times> int"

definition b32_value :: "binary32 \<Rightarrow> rat" where
  "b32_value x = of_nat (fst x) * 2 powi (snd x)"

definition round_half_even :: "nat \<Rightarrow> nat \<Rightarrow> nat" where
  "round_half_even a b =
     (let q = a div b; r = a mod b
      in if 2 * r < b then q else if b < 2 * r then q + 1 else if even q then q else q + 1)"

text \<open>
  \<open>floor_log2_quotient a b\<close> is the binary exponent of \<open>a / b\<close>, the integer \<open>l\<close> with
  \<open>2 ^ l \<le> a / b < 2 ^ (l + 1)\<close>, for positive \<open>a\<close> and \<open>b\<close>. Rounding \<open>a / b\<close> to 24
  significant bits is rounding it to a multiple of \<open>2 ^ (l - 23)\<close>.
\<close>

definition floor_log2_quotient :: "nat \<Rightarrow> nat \<Rightarrow> int" where
  "floor_log2_quotient a b =
     (let d = int (floorlog 2 a) - int (floorlog 2 b)
      in if (if 0 \<le> d then b * 2 ^ nat d \<le> a else b \<le> a * 2 ^ nat (- d)) then d else d - 1)"

definition round_binary32 :: "nat \<Rightarrow> nat \<Rightarrow> binary32" where
  "round_binary32 a b =
     (if a = 0 then (0, 0)
      else
        let e = floor_log2_quotient a b - 23
        in if 0 \<le> e then (round_half_even a (b * 2 ^ nat e), e)
           else (round_half_even (a * 2 ^ nat (- e)) b, e))"

text \<open>\<^verbatim>\<open>static_cast<float>\<close> of an \<^verbatim>\<open>NvU32\<close>.\<close>

definition float_of_u32 :: "NvU32 \<Rightarrow> binary32" where
  "float_of_u32 w = round_binary32 (unat w) 1"

text \<open>The quotient of two \<^verbatim>\<open>float\<close>s, for a divisor that is not zero.\<close>

definition float_div :: "binary32 \<Rightarrow> binary32 \<Rightarrow> binary32" where
  "float_div x y =
     (let k = snd x - snd y
      in if 0 \<le> k then round_binary32 (fst x * 2 ^ nat k) (fst y)
         else round_binary32 (fst x) (fst y * 2 ^ nat (- k)))"

text \<open>
  \<^verbatim>\<open>%.2f\<close>: the argument (promoted to \<^verbatim>\<open>double\<close>, which changes nothing) is rounded
  to hundredths and printed with two digits after the point. A value that lies exactly
  between two hundredths goes to the even one, as the Universal C runtime prints it; older
  Microsoft runtimes round such a value away from zero, and the two rules differ on such
  values only.
\<close>

definition hundredths :: "binary32 \<Rightarrow> nat" where
  "hundredths x =
     (if 0 \<le> snd x then 100 * fst x * 2 ^ nat (snd x)
      else round_half_even (100 * fst x) (2 ^ nat (- snd x)))"

definition show_hundredths :: "nat \<Rightarrow> string" where
  "show_hundredths c = show_nat (c div 100) @ ''.'' @ [digit_char (c div 10 mod 10), digit_char (c mod 10)]"

definition printf_2f :: "binary32 \<Rightarrow> string" where
  "printf_2f x = show_hundredths (hundredths x)"

subsection \<open>The formatters\<close>

definition FormatClockSpeed :: "NV_GPU_CLOCK_FREQUENCIES \<Rightarrow> NvU32 \<Rightarrow> string" where
  "FormatClockSpeed frequencies d =
     (if \<not> bIsPresent (domain frequencies ! unat d) then ''<not present>''
      else snprintf_s 128
        (printf_2f (float_div (float_of_u32 (frequency (domain frequencies ! unat d))) (1000, 0))
          @ '' MHz''))"

definition FormatSizeKB :: "NvU32 \<Rightarrow> string" where
  "FormatSizeKB size_in_kb =
     (if size_in_kb > 1048576 then
        snprintf_s 128 (printf_2f (float_div (float_of_u32 size_in_kb) (1048576, 0)) @ '' GiB'')
      else if size_in_kb > 1024 then
        snprintf_s 128 (printf_2f (float_div (float_of_u32 size_in_kb) (1024, 0)) @ '' MiB'')
      else snprintf_s 128 (show_nat (unat size_in_kb) @ '' KiB''))"

subsection \<open>Reporting\<close>

definition PrintError :: "NvAPI_Status \<Rightarrow> string \<Rightarrow> effect list" where
  "PrintError error msg =
     [Stderr (snprintf_s 256 (msg @ ''Error 0x'' @ show_hex8 error @ newline))]"

definition PrintGPUClockInfo :: "NvAPI \<Rightarrow> GPUInfo \<Rightarrow> effect list" where
  "PrintGPUClockInfo nv gpu =
     (let (status, base_frequencies) =
            NvAPI_GPU_GetAllClockFrequencies nv (physical_gpu gpu) NV_GPU_CLOCK_FREQUENCIES_BASE_CLOCK
      in if status \<noteq> NVAPI_OK then PrintError status ''NvAPI_GPU_GetAllClockFrequencies failed:''
         else
           let (boost_status, boost_frequencies) =
                 NvAPI_GPU_GetAllClockFrequencies nv (physical_gpu gpu) NV_GPU_CLOCK_FREQUENCIES_BOOST_CLOCK;
               has_boost_frequencies = (boost_status = NVAPI_OK);
               PrintClock = (\<lambda>ty d.
                 [Stdout (ty @ '': '' @ FormatClockSpeed base_frequencies d)]
                 @ (if has_boost_frequencies
                    then [Stdout ('' (boost '' @ FormatClockSpeed boost_frequencies d @ '')'')]
                    else [])
                 @ [Stdout newline])
           in PrintClock ''Graphics clock speed'' NVAPI_GPU_PUBLIC_CLOCK_GRAPHICS
              @ PrintClock ''Memory clock speed'' NVAPI_GPU_PUBLIC_CLOCK_MEMORY)"

definition PrintGPUInfo :: "NvAPI \<Rightarrow> GPUInfo \<Rightarrow> effect list" where
  "PrintGPUInfo nv gpu =
     [Stdout (''GPU: '' @ name gpu @ newline),
      Stdout (''-------------------------------'' @ newline)]
     @ PrintGPUClockInfo nv gpu"

definition PrintGPUCurrentClocks :: "NvAPI \<Rightarrow> GPUInfo \<Rightarrow> effect list" where
  "PrintGPUCurrentClocks nv gpu =
     (let (status, frequencies) =
            NvAPI_GPU_GetAllClockFrequencies nv (physical_gpu gpu) NV_GPU_CLOCK_FREQUENCIES_CURRENT_FREQ
      in if status \<noteq> NVAPI_OK then PrintError status ''NvAPI_GPU_GetAllClockFrequencies failed:''
         else
           let PrintClock = (\<lambda>ty d.
                 [Stdout (ty @ '': '' @ FormatClockSpeed frequencies d), Stdout tab])
           in PrintClock ''Graphics clock speed'' NVAPI_GPU_PUBLIC_CLOCK_GRAPHICS
              @ PrintClock ''Memory clock speed'' NVAPI_GPU_PUBLIC_CLOCK_MEMORY)"

definition PrintGPUCurrentTemperature :: "NvAPI \<Rightarrow> GPUInfo \<Rightarrow> effect list" where
  "PrintGPUCurrentTemperature nv gpu =
     (let (status, thermal) = NvAPI_GPU_GetThermalSettings nv (physical_gpu gpu)
      in if status \<noteq> NVAPI_OK then PrintError status ''NvAPI_GPU_GetAllClockFrequencies failed:''
         else if count thermal > 0 then
           [Stdout (''Temperature: '' @ show_int (sint (currentTemp (sensor thermal ! 0))) @ ''C''),
            Stdout tab]
         else [])"

definition PrintGPUCurrentFanSpeed :: "NvAPI \<Rightarrow> GPUInfo \<Rightarrow> effect list" where
  "PrintGPUCurrentFanSpeed nv gpu =
     (let fan_speed = 0;
          (status, fan_speed) = NvAPI_GPU_GetTachReading nv (physical_gpu gpu) fan_speed
      in [Stdout (''Fan speed: '' @ show_nat (unat fan_speed) @ '' RPM'' @ tab)])"

definition PrintGPUCurrentMemoryUsage :: "NvAPI \<Rightarrow> GPUInfo \<Rightarrow> effect list" where
  "PrintGPUCurrentMemoryUsage nv gpu =
     (let (status, memory_info) = NvAPI_GPU_GetMemoryInfo nv (physical_gpu gpu)
      in if status \<noteq> NVAPI_OK then PrintError status ''NvAPI_GPU_GetAllClockFrequencies failed:''
         else
           let used_memory = vram_in_kb gpu - curAvailableDedicatedVideoMemory memory_info
           in [Stdout (''Memory usage: '' @ FormatSizeKB used_memory @ '' / ''
                        @ FormatSizeKB (vram_in_kb gpu)),
               Stdout tab])"

definition PrintGPUStatus :: "NvAPI \<Rightarrow> GPUInfo \<Rightarrow> effect list" where
  "PrintGPUStatus nv gpu =
     [Stdout (''GPU: '' @ name gpu @ newline),
      Stdout (''-------------------------------'' @ newline)]
     @ PrintGPUCurrentClocks nv gpu
     @ [Stdout newline]
     @ PrintGPUCurrentTemperature nv gpu
     @ PrintGPUCurrentFanSpeed nv gpu
     @ [Stdout newline]
     @ PrintGPUCurrentMemoryUsage nv gpu
     @ [Stdout newline]
     @ [Stdout (''-------------------------------'' @ newline)]
     @ [Stdout newline]"

subsection \<open>Enumeration\<close>

text \<open>
  The body of the \<^verbatim>\<open>for\<close> loop of \<^verbatim>\<open>EnumerateGPUs\<close>, run over
  \<^verbatim>\<open>gpu_handles[0 .. num_gpus - 1]\<close> in index order. The pair threaded through the loop
  is what has been written so far and the vector \<^verbatim>\<open>gpus\<close>; each \<^verbatim>\<open>continue\<close> goes on
  with the next handle and leaves the vector as it is.
\<close>

fun EnumerateGPUs_loop ::
  "NvAPI \<Rightarrow> NvPhysicalGpuHandle list \<Rightarrow> effect list \<times> GPUInfo list \<Rightarrow> effect list \<times> GPUInfo list"
where
  "EnumerateGPUs_loop nv [] (out, gpus) = (out, gpus)"
| "EnumerateGPUs_loop nv (h # rest) (out, gpus) =
     (let (status, str) = NvAPI_GPU_GetFullName nv h
      in if status \<noteq> NVAPI_OK then
           EnumerateGPUs_loop nv rest (out @ PrintError status ''NvAPI_GPU_GetFullName failed: '', gpus)
         else
           let (status, vram_size_kb) = NvAPI_GPU_GetPhysicalFrameBufferSize nv h
           in if status \<noteq> NVAPI_OK then
                EnumerateGPUs_loop nv rest
                  (out @ PrintError status ''NvAPI_GPU_GetPhysicalFrameBufferSize failed: '', gpus)
              else
                EnumerateGPUs_loop nv rest
                  (out, gpus @ [\<lparr>physical_gpu = h, name = str, vram_in_kb = vram_size_kb\<rparr>]))"

definition EnumerateGPUs :: "NvAPI \<Rightarrow> effect list \<times> GPUInfo list" where
  "EnumerateGPUs nv =
     (let (status, gpu_handles) = NvAPI_EnumPhysicalGPUs nv
      in if status \<noteq> NVAPI_OK then (PrintError status ''NvAPI_EnumPhysicalGPUs failed: '', [])
         else EnumerateGPUs_loop nv gpu_handles ([], []))"

subsection \<open>The program\<close>

definition EXIT_SUCCESS :: int where
  "EXIT_SUCCESS = 0"

definition EXIT_FAILURE :: int where
  "EXIT_FAILURE = 1"

text \<open>
  The sampling loop \<^verbatim>\<open>for (;;)\<close> has no condition, and its body holds no \<^verbatim>\<open>break\<close> and
  no \<^verbatim>\<open>return\<close>. It is run with fuel: \<open>sampling_loop live gpus k fuel\<close> runs at most
  \<open>fuel\<close> passes, starting with pass number \<open>k\<close>, and returns what they write together with
  \<open>Some ()\<close> if control left the loop and \<open>None\<close> if the loop is still running when the
  fuel is used up. NVAPI answers pass \<open>k\<close> as \<open>live k\<close>, so readings may change from one
  pass to the next.
\<close>

fun sampling_loop :: "(nat \<Rightarrow> NvAPI) \<Rightarrow> GPUInfo list \<Rightarrow> nat \<Rightarrow> nat \<Rightarrow> effect list \<times> unit option" where
  "sampling_loop live gpus k 0 = ([], None)"
| "sampling_loop live gpus k (Suc fuel) =
     (let pass = concat (map (PrintGPUStatus (live k)) gpus) @ [Sleep 1000];
          (rest, left) = sampling_loop live gpus (Suc k) fuel
      in (pass @ rest, left))"

text \<open>
  \<^verbatim>\<open>main\<close> returns what the program did and its exit status, \<open>None\<close> while it is still
  in the sampling loop. \<open>nv\<close> is NVAPI as it answers during startup.
\<close>

definition main :: "NvAPI \<Rightarrow> (nat \<Rightarrow> NvAPI) \<Rightarrow> nat \<Rightarrow> effect list \<times> int option" where
  "main nv live fuel =
     (let status = NvAPI_Initialize nv
      in if status \<noteq> NVAPI_OK then (PrintError status ''NVAPI_Initialize failed: '', Some EXIT_FAILURE)
         else
           let (enumerated, gpus) = EnumerateGPUs nv
           in if gpus = [] then
                (enumerated @ [Stderr (''No GPUs found.'' @ newline), NvAPI_Unload], Some EXIT_FAILURE)
              else
                let info = concat (map (PrintGPUInfo nv) gpus);
                    (sampled, left) = sampling_loop live gpus 0 fuel
                in case left of
                     None \<Rightarrow> (enumerated @ info @ sampled, None)
                   | Some _ \<Rightarrow> (enumerated @ info @ sampled @ [NvAPI_Unload], Some EXIT_SUCCESS))"

subsection \<open>A sample machine\<close>

text \<open>
  Three handles are listed. The name of \<open>Handle 1\<close> cannot be read. \<open>Handle 0\<close> answers
  every query; \<open>Handle 2\<close> fails the clock, fan and memory queries and reports no thermal
  sensor. The concrete instances of the theorems below are taken on this machine.
\<close>

definition sample_frequencies :: NV_GPU_CLOCK_FREQUENCIES where
  "sample_frequencies =
     \<lparr>ClockType = NV_GPU_CLOCK_FREQUENCIES_CURRENT_FREQ,
      domain = (replicate 32 \<lparr>bIsPresent = False, frequency = 0\<rparr>)
        [0 := \<lparr>bIsPresent = True, frequency = 1815000\<rparr>,
         4 := \<lparr>bIsPresent = True, frequency = 7000500\<rparr>]\<rparr>"

definition sample_nv :: NvAPI where
  "sample_nv =
     \<lparr>NvAPI_Initialize = 0,
      NvAPI_EnumPhysicalGPUs = (0, [Handle 0, Handle 1, Handle 2]),
      NvAPI_GPU_GetFullName = (\<lambda>h. if h = Handle 1 then (- 6, []) else (0, ''GeForce'')),
      NvAPI_GPU_GetPhysicalFrameBufferSize = (\<lambda>h. (0, 8388608)),
      NvAPI_GPU_GetAllClockFrequencies =
        (\<lambda>h t. if h = Handle 2 then (- 104, sample_frequencies) else (0, sample_frequencies)),
      NvAPI_GPU_GetThermalSettings =
        (\<lambda>h. if h = Handle 0 then (0, \<lparr>count = 1, sensor = [\<lparr>currentTemp = 65\<rparr>]\<rparr>)
             else if h = Handle 2 then (0, \<lparr>count = 0, sensor = [\<lparr>currentTemp = 0\<rparr>]\<rparr>)
             else (- 3, \<lparr>count = 0, sensor = []\<rparr>)),
      NvAPI_GPU_GetTachReading = (\<lambda>h v. if h = Handle 0 then (0, 1500) else (- 104, v)),
      NvAPI_GPU_GetMemoryInfo =
        (\<lambda>h. if h = Handle 0 then (0, \<lparr>curAvailableDedicatedVideoMemory = 6291456\<rparr>)
             else (- 3, \<lparr>curAvailableDedicatedVideoMemory = 0\<rparr>))\<rparr>"

definition sample_gpu :: "nat \<Rightarrow> GPUInfo" where
  "sample_gpu i = \<lparr>physical_gpu = Handle i, name = ''GeForce'', vram_in_kb = 8388608\<rparr>"

subsection \<open>Vocabulary of the specification\<close>

text \<open>
  The specification speaks of devices whose name and capacity can be resolved, of the
  record such a device gets, and of diagnostic lines. These definitions follow its words;
  the theorems compare them with what the program computes.
\<close>

definition usable :: "NvAPI \<Rightarrow> NvPhysicalGpuHandle \<Rightarrow> bool" where
  "usable nv h =
     (fst (NvAPI_GPU_GetFullName nv h) = NVAPI_OK
      \<and> fst (NvAPI_GPU_GetPhysicalFrameBufferSize nv h) = NVAPI_OK)"

definition device_record :: "NvAPI \<Rightarrow> NvPhysicalGpuHandle \<Rightarrow> GPUInfo" where
  "device_record nv h =
     \<lparr>physical_gpu = h,
      name = snd (NvAPI_GPU_GetFullName nv h),
      vram_in_kb = snd (NvAPI_GPU_GetPhysicalFrameBufferSize nv h)\<rparr>"

definition is_diagnostic :: "effect \<Rightarrow> bool" where
  "is_diagnostic e = (case e of Stderr s \<Rightarrow> True | _ \<Rightarrow> False)"

definition is_output :: "effect \<Rightarrow> bool" where
  "is_output e = (case e of Stdout s \<Rightarrow> True | Stderr s \<Rightarrow> True | _ \<Rightarrow> False)"

text \<open>
  A field of a report is one write to standard output that starts with the field's label.
  A query is in order when its status is \<^verbatim>\<open>NVAPI_OK\<close>.
\<close>

definition field_named :: "string \<Rightarrow> effect \<Rightarrow> bool" where
  "field_named p e = (case e of Stdout s \<Rightarrow> take (length p) s = p | _ \<Rightarrow> False)"

definition clocks_ok :: "NvAPI \<Rightarrow> GPUInfo \<Rightarrow> bool" where
  "clocks_ok nv gpu =
     (fst (NvAPI_GPU_GetAllClockFrequencies nv (physical_gpu gpu) NV_GPU_CLOCK_FREQUENCIES_CURRENT_FREQ)
        = NVAPI_OK)"

definition thermal_ok :: "NvAPI \<Rightarrow> GPUInfo \<Rightarrow> bool" where
  "thermal_ok nv gpu = (fst (NvAPI_GPU_GetThermalSettings nv (physical_gpu gpu)) = NVAPI_OK)"

definition has_sensor :: "NvAPI \<Rightarrow> GPUInfo \<Rightarrow> bool" where
  "has_sensor nv gpu = (count (snd (NvAPI_GPU_GetThermalSettings nv (physical_gpu gpu))) > 0)"

definition memory_ok :: "NvAPI \<Rightarrow> GPUInfo \<Rightarrow> bool" where
  "memory_ok nv gpu = (fst (NvAPI_GPU_GetMemoryInfo nv (physical_gpu gpu)) = NVAPI_OK)"

definition occurrences :: "(effect \<Rightarrow> bool) \<Rightarrow> effect list \<Rightarrow> nat" where
  "occurrences P out = length (filter P out)"

text \<open>
  The shapes of the formatted texts: a number with two decimals followed by a unit, and a
  whole number followed by a unit.
\<close>

definition is_digit :: "char \<Rightarrow> bool" where
  "is_digit c = (c \<in> set ''0123456789'')"

definition two_decimals :: "string \<Rightarrow> bool" where
  "two_decimals s =
     (4 \<le> length s
      \<and> list_all is_digit (take (length s - 3) s)
      \<and> s ! (length s - 3) = CHR ''.''
      \<and> list_all is_digit (drop (length s - 2) s))"

definition scaled_text :: "string \<Rightarrow> string \<Rightarrow> bool" where
  "scaled_text unit s =
     (length unit \<le> length s
      \<and> drop (length s - length unit) s = unit
      \<and> two_decimals (take (length s - length unit) s))"

definition whole_text :: "string \<Rightarrow> string \<Rightarrow> bool" where
  "whole_text unit s =
     (length unit < length s
      \<and> drop (length s - length unit) s = unit
      \<and> list_all is_digit (take (length s - length unit) s))"

text \<open>
  A diagnostic line is a write to standard error that ends with \<^verbatim>\<open>Error 0x\<close>, eight
  upper-case hexadecimal digits and a line break.
\<close>

definition is_hex_digit :: "char \<Rightarrow> bool" where
  "is_hex_digit c = (c \<in> set ''0123456789ABCDEF'')"

definition diagnostic_line :: "effect \<Rightarrow> bool" where
  "diagnostic_line e =
     (case e of
        Stderr s \<Rightarrow>
          17 \<le> length s
          \<and> take 8 (drop (length s - 17) s) = ''Error 0x''
          \<and> list_all is_hex_digit (take 8 (drop (length s - 9) s))
          \<and> drop (length s - 1) s = newline
      | _ \<Rightarrow> False)"

text \<open>
  A populated clock field is a write to standard output made of the field's label and a
  clock text: a frequency with two decimals and the unit \<^verbatim>\<open>MHz\<close>, or the marker of a
  domain that is not present.
\<close>

definition clock_text :: "string \<Rightarrow> bool" where
  "clock_text b = (b = ''<not present>'' \<or> scaled_text '' MHz'' b)"

definition populated_clock_field :: "string \<Rightarrow> effect \<Rightarrow> bool" where
  "populated_clock_field p e =
     (case e of Stdout s \<Rightarrow> take (length p) s = p \<and> clock_text (drop (length p) s) | _ \<Rightarrow> False)"

text \<open>
  The status report of one device as the specification describes it. The name line and a
  divider come first. Then each metric stands alone: the two clock fields, or in their
  place one diagnostic line carrying the status of the failed clock query; the temperature
  field when the thermal query is in order and reports a sensor, or one diagnostic line
  when it failed; the fan field, whatever the tachometer call answered; the memory field,
  or one diagnostic line when the memory query failed. The program uses the same message
  for the three diagnostics.
\<close>

definition query_diagnostic :: "NvAPI_Status \<Rightarrow> effect" where
  "query_diagnostic status =
     Stderr (''NvAPI_GPU_GetAllClockFrequencies failed:Error 0x'' @ show_hex8 status @ newline)"

definition status_report :: "NvAPI \<Rightarrow> GPUInfo \<Rightarrow> effect list" where
  "status_report nv gpu =
     (let (clock_status, frequencies) =
            NvAPI_GPU_GetAllClockFrequencies nv (physical_gpu gpu) NV_GPU_CLOCK_FREQUENCIES_CURRENT_FREQ;
          (thermal_status, thermal) = NvAPI_GPU_GetThermalSettings nv (physical_gpu gpu);
          rpm = snd (NvAPI_GPU_GetTachReading nv (physical_gpu gpu) 0);
          (memory_status, memory_info) = NvAPI_GPU_GetMemoryInfo nv (physical_gpu gpu)
      in [Stdout (''GPU: '' @ name gpu @ newline),
          Stdout (''-------------------------------'' @ newline)]
         @ (if clock_status = NVAPI_OK then
              [Stdout (''Graphics clock speed: ''
                       @ FormatClockSpeed frequencies NVAPI_GPU_PUBLIC_CLOCK_GRAPHICS),
               Stdout tab,
               Stdout (''Memory clock speed: ''
                       @ FormatClockSpeed frequencies NVAPI_GPU_PUBLIC_CLOCK_MEMORY),
               Stdout tab]
            else [query_diagnostic clock_status])
         @ [Stdout newline]
         @ (if thermal_status = NVAPI_OK then
              if 0 < count thermal then
                [Stdout (''Temperature: '' @ show_int (sint (currentTemp (sensor thermal ! 0))) @ ''C''),
                 Stdout tab]
              else []
            else [query_diagnostic thermal_status])
         @ [Stdout (''Fan speed: '' @ show_nat (unat rpm) @ '' RPM'' @ tab)]
         @ [Stdout newline]
         @ (if memory_status = NVAPI_OK then
              [Stdout (''Memory usage: ''
                       @ FormatSizeKB (vram_in_kb gpu - curAvailableDedicatedVideoMemory memory_info)
                       @ '' / '' @ FormatSizeKB (vram_in_kb gpu)),
               Stdout tab]
            else [query_diagnostic memory_status])
         @ [Stdout newline,
            Stdout (''-------------------------------'' @ newline),
            Stdout newline])"

text \<open>
  The tachometer call takes the current value of the caller's variable and hands back a
  status and the variable's new value. The call is untouched on failure when a status
  other than \<^verbatim>\<open>NVAPI_OK\<close> comes with the value that was passed in. Nothing in the program
  makes the provider behave so.
\<close>

definition untouched_on_failure :: "NvAPI \<Rightarrow> NvPhysicalGpuHandle \<Rightarrow> NvU32 \<Rightarrow> bool" where
  "untouched_on_failure nv h v =
     (fst (NvAPI_GPU_GetTachReading nv h v) \<noteq> NVAPI_OK \<longrightarrow>
      snd (NvAPI_GPU_GetTachReading nv h v) = v)"

section \<open>Properties\<close>

text \<open>The equations that evaluate the formatters on concrete numbers.\<close>

lemmas show_nat_eval = show_nat.simps digit_char_def

lemmas format_eval = FormatSizeKB_def FormatClockSpeed_def snprintf_s_def printf_2f_def
  show_hundredths_def hundredths_def float_div_def float_of_u32_def round_binary32_def
  floor_log2_quotient_def round_half_even_def digit_char_def show_nat.simps compute_floorlog
  Let_def

subsection \<open>Diagnostics\<close>

lemma length_show_hex8: "length (show_hex8 w) = 8"
  by (simp add: show_hex8_def)

text \<open>None of the program's messages is long enough for the 256-byte buffer to cut it.\<close>

lemma PrintError_text:
  "length msg \<le> 200 \<Longrightarrow>
   PrintError status msg = [Stderr (msg @ ''Error 0x'' @ show_hex8 status @ newline)]"
  by (simp add: PrintError_def snprintf_s_def length_show_hex8 newline_def)

subsection \<open>Temperature\<close>

text \<open>
  Claim C10. When the thermal query succeeds and reports a sensor count of zero,
  \<^verbatim>\<open>PrintGPUCurrentTemperature\<close> writes nothing at all, neither a temperature field nor a
  diagnostic, and the status report of that device consists of the other parts only. When
  the query fails, it writes exactly one diagnostic line to the error stream.
\<close>

theorem PrintGPUCurrentTemperature_no_sensor:
  assumes "NvAPI_GPU_GetThermalSettings nv (physical_gpu gpu) = (status, thermal)"
  shows "(status = NVAPI_OK \<and> count thermal = 0 \<longrightarrow>
            PrintGPUCurrentTemperature nv gpu = []
            \<and> PrintGPUStatus nv gpu =
                [Stdout (''GPU: '' @ name gpu @ newline),
                 Stdout (''-------------------------------'' @ newline)]
                @ PrintGPUCurrentClocks nv gpu @ [Stdout newline]
                @ PrintGPUCurrentFanSpeed nv gpu @ [Stdout newline]
                @ PrintGPUCurrentMemoryUsage nv gpu @ [Stdout newline]
                @ [Stdout (''-------------------------------'' @ newline), Stdout newline])
         \<and> (status \<noteq> NVAPI_OK \<longrightarrow>
              PrintGPUCurrentTemperature nv gpu =
                [Stderr (''NvAPI_GPU_GetAllClockFrequencies failed:Error 0x''
                          @ show_hex8 status @ newline)])"
  using assms by (simp add: PrintGPUCurrentTemperature_def PrintGPUStatus_def PrintError_text)

theorem PrintGPUCurrentTemperature_no_sensor_witness:
  "PrintGPUCurrentTemperature sample_nv (sample_gpu 2) = []
   \<and> PrintGPUCurrentTemperature sample_nv (sample_gpu 1) =
       [Stderr (''NvAPI_GPU_GetAllClockFrequencies failed:Error 0xFFFFFFFD'' @ newline)]"
  using PrintGPUCurrentTemperature_no_sensor
      [of sample_nv "sample_gpu 2" 0 "\<lparr>count = 0, sensor = [\<lparr>currentTemp = 0\<rparr>]\<rparr>"]
    PrintGPUCurrentTemperature_no_sensor
      [of sample_nv "sample_gpu 1" "- 3" "\<lparr>count = 0, sensor = []\<rparr>"]
  by (simp add: sample_nv_def sample_gpu_def NVAPI_OK_def show_hex8_def digit_char_def)

subsection \<open>Fan speed\<close>

text \<open>
  \<^verbatim>\<open>PrintGPUCurrentFanSpeed\<close> prints whatever its variable holds after the tachometer
  call. A call that fails and stores 777 is reported as \<open>777 RPM\<close>: a failed call alone
  does not leave the reported value at zero.
\<close>

theorem PrintGPUCurrentFanSpeed_failed_nonzero:
  "fst (NvAPI_GPU_GetTachReading
          (sample_nv\<lparr>NvAPI_GPU_GetTachReading := \<lambda>h v. (- 104, 777)\<rparr>)
          (physical_gpu (sample_gpu 0)) 0) \<noteq> NVAPI_OK
   \<and> PrintGPUCurrentFanSpeed
         (sample_nv\<lparr>NvAPI_GPU_GetTachReading := \<lambda>h v. (- 104, 777)\<rparr>) (sample_gpu 0)
       = [Stdout (''Fan speed: 777 RPM'' @ tab)]
   \<and> PrintGPUCurrentFanSpeed
         (sample_nv\<lparr>NvAPI_GPU_GetTachReading := \<lambda>h v. (- 104, 777)\<rparr>) (sample_gpu 0)
       \<noteq> [Stdout (''Fan speed: 0 RPM'' @ tab)]"
  by (simp add: PrintGPUCurrentFanSpeed_def NVAPI_OK_def show_nat_eval)

text \<open>
  Claim C5. \<^verbatim>\<open>PrintGPUCurrentFanSpeed\<close> never looks at the status of the tachometer
  call: whatever the status is, it writes exactly one field to standard output, holding the
  value its variable has after the call, and no diagnostic; two calls that hand back the
  same value give the same output, whatever their statuses. The variable starts at zero.
  So when the call is untouched on failure, a failed call is reported as \<open>0 RPM\<close>, and its
  output is the output of a successful reading of zero: the failure cannot be told from a
  true reading.
\<close>

theorem PrintGPUCurrentFanSpeed_unsignalled:
  "PrintGPUCurrentFanSpeed nv gpu
     = [Stdout (''Fan speed: ''
          @ show_nat (unat (snd (NvAPI_GPU_GetTachReading nv (physical_gpu gpu) 0)))
          @ '' RPM'' @ tab)]
   \<and> occurrences is_diagnostic (PrintGPUCurrentFanSpeed nv gpu) = 0
   \<and> (snd (NvAPI_GPU_GetTachReading other (physical_gpu gpu) 0)
         = snd (NvAPI_GPU_GetTachReading nv (physical_gpu gpu) 0) \<longrightarrow>
        PrintGPUCurrentFanSpeed other gpu = PrintGPUCurrentFanSpeed nv gpu)
   \<and> (untouched_on_failure nv (physical_gpu gpu) 0 \<longrightarrow>
        fst (NvAPI_GPU_GetTachReading nv (physical_gpu gpu) 0) \<noteq> NVAPI_OK \<longrightarrow>
          PrintGPUCurrentFanSpeed nv gpu = [Stdout (''Fan speed: 0 RPM'' @ tab)]
          \<and> (NvAPI_GPU_GetTachReading other (physical_gpu gpu) 0 = (NVAPI_OK, 0) \<longrightarrow>
               PrintGPUCurrentFanSpeed other gpu = PrintGPUCurrentFanSpeed nv gpu))"
  by (simp add: untouched_on_failure_def PrintGPUCurrentFanSpeed_def show_nat_eval
      occurrences_def is_diagnostic_def case_prod_beta)

theorem PrintGPUCurrentFanSpeed_unsignalled_witness:
  "untouched_on_failure sample_nv (Handle 2) 0
   \<and> fst (NvAPI_GPU_GetTachReading sample_nv (Handle 2) 0) \<noteq> NVAPI_OK
   \<and> PrintGPUCurrentFanSpeed sample_nv (sample_gpu 2) = [Stdout (''Fan speed: 0 RPM'' @ tab)]
   \<and> occurrences is_diagnostic (PrintGPUCurrentFanSpeed sample_nv (sample_gpu 2)) = 0
   \<and> PrintGPUCurrentFanSpeed (sample_nv\<lparr>NvAPI_GPU_GetTachReading := \<lambda>h v. (NVAPI_OK, 0)\<rparr>)
         (sample_gpu 2)
       = PrintGPUCurrentFanSpeed sample_nv (sample_gpu 2)"
proof -
  let ?reading = "sample_nv\<lparr>NvAPI_GPU_GetTachReading := \<lambda>h v. (NVAPI_OK, 0)\<rparr>"
  have handle: "physical_gpu (sample_gpu 2) = Handle 2"
    by (simp add: sample_gpu_def)
  have contract: "untouched_on_failure sample_nv (Handle 2) 0"
    by (simp add: untouched_on_failure_def sample_nv_def)
  have failed: "fst (NvAPI_GPU_GetTachReading sample_nv (Handle 2) 0) \<noteq> NVAPI_OK"
    by (simp add: sample_nv_def NVAPI_OK_def)
  have zero: "NvAPI_GPU_GetTachReading ?reading (Handle 2) 0 = (NVAPI_OK, 0)"
    by simp
  note all = PrintGPUCurrentFanSpeed_unsignalled
    [of sample_nv "sample_gpu 2" ?reading, unfolded handle]
  note quiet = all [THEN conjunct2, THEN conjunct1]
  note on_failure = all [THEN conjunct2, THEN conjunct2, THEN conjunct2, THEN mp, THEN mp,
    OF contract failed]
  show ?thesis
    by (intro conjI contract failed on_failure [THEN conjunct1] quiet
        on_failure [THEN conjunct2, THEN mp, OF zero])
qed

subsection \<open>Memory usage\<close>

text \<open>
  Claim C7. When the memory query succeeds, the used memory is the total capacity stored
  in the device record minus the currently available memory, subtracted as 32-bit unsigned
  numbers (so modulo \<open>2 ^ 32\<close>; the plain difference whenever the available memory does not
  exceed the capacity), and the report is \<open>Memory usage: used / total\<close> with both numbers
  formatted by \<^verbatim>\<open>FormatSizeKB\<close>.
\<close>

theorem PrintGPUCurrentMemoryUsage_used:
  assumes "NvAPI_GPU_GetMemoryInfo nv (physical_gpu gpu) = (NVAPI_OK, memory_info)"
  shows "PrintGPUCurrentMemoryUsage nv gpu =
           [Stdout (''Memory usage: ''
                    @ FormatSizeKB (vram_in_kb gpu - curAvailableDedicatedVideoMemory memory_info)
                    @ '' / '' @ FormatSizeKB (vram_in_kb gpu)),
            Stdout tab]
         \<and> uint (vram_in_kb gpu - curAvailableDedicatedVideoMemory memory_info)
             = (uint (vram_in_kb gpu) - uint (curAvailableDedicatedVideoMemory memory_info)) mod 2 ^ 32
         \<and> (curAvailableDedicatedVideoMemory memory_info \<le> vram_in_kb gpu \<longrightarrow>
              unat (vram_in_kb gpu - curAvailableDedicatedVideoMemory memory_info)
                = unat (vram_in_kb gpu) - unat (curAvailableDedicatedVideoMemory memory_info))"
  using assms
  by (simp add: PrintGPUCurrentMemoryUsage_def uint_word_ariths unat_sub)

theorem PrintGPUCurrentMemoryUsage_used_witness:
  "PrintGPUCurrentMemoryUsage sample_nv (sample_gpu 0)
     = [Stdout ''Memory usage: 2.00 GiB / 8.00 GiB'', Stdout tab]"
proof -
  have call: "NvAPI_GPU_GetMemoryInfo sample_nv (physical_gpu (sample_gpu 0))
                = (NVAPI_OK, \<lparr>curAvailableDedicatedVideoMemory = 6291456\<rparr>)"
    by (simp add: sample_nv_def sample_gpu_def NVAPI_OK_def)
  have total: "FormatSizeKB 8388608 = ''8.00 GiB''"
    by (simp add: format_eval)
  have used: "FormatSizeKB (8388608 - 6291456) = ''2.00 GiB''"
    by (simp add: format_eval)
  from PrintGPUCurrentMemoryUsage_used [OF call] total used show ?thesis
    by (simp add: sample_gpu_def)
qed

subsection \<open>Enumeration\<close>

lemma is_diagnostic_PrintError: "list_all is_diagnostic (PrintError status msg)"
  by (simp add: PrintError_def is_diagnostic_def)

lemma length_PrintError: "length (PrintError status msg) = 1"
  by (simp add: PrintError_def)

text \<open>
  The loop appends, in the order of the handles, the record of every handle whose name
  and capacity are both resolved, and writes one diagnostic for every other handle.
\<close>

lemma EnumerateGPUs_loop_gpus:
  "snd (EnumerateGPUs_loop nv hs (out, gpus)) = gpus @ map (device_record nv) (filter (usable nv) hs)"
  by (induction hs arbitrary: out gpus)
     (auto simp: usable_def device_record_def split: prod.splits)

lemma EnumerateGPUs_loop_out:
  "list_all is_diagnostic out \<Longrightarrow>
   list_all is_diagnostic (fst (EnumerateGPUs_loop nv hs (out, gpus)))
   \<and> length (fst (EnumerateGPUs_loop nv hs (out, gpus)))
       = length out + length (filter (\<lambda>h. \<not> usable nv h) hs)"
  by (induction hs arbitrary: out gpus)
     (auto simp: usable_def is_diagnostic_PrintError length_PrintError split: prod.splits)

text \<open>
  Claim C3. \<^verbatim>\<open>EnumerateGPUs\<close> returns the empty vector when the listing call fails. When
  it succeeds, the vector holds exactly the records of the listed handles whose name and
  capacity are both resolved, in the order of the listing: a handle for which either call
  fails gets no record, costs one diagnostic, and the loop goes on with the next handle. So
  the vector is also empty when every listed handle fails. Enumeration writes diagnostics
  only.
\<close>

theorem EnumerateGPUs_skips_failures:
  assumes "NvAPI_EnumPhysicalGPUs nv = (status, gpu_handles)"
  shows "(status \<noteq> NVAPI_OK \<longrightarrow> snd (EnumerateGPUs nv) = [])
         \<and> (status = NVAPI_OK \<longrightarrow>
              snd (EnumerateGPUs nv) = map (device_record nv) (filter (usable nv) gpu_handles)
              \<and> length (fst (EnumerateGPUs nv)) = length (filter (\<lambda>h. \<not> usable nv h) gpu_handles))
         \<and> (status = NVAPI_OK \<and> list_all (\<lambda>h. \<not> usable nv h) gpu_handles \<longrightarrow>
              snd (EnumerateGPUs nv) = [])
         \<and> list_all is_diagnostic (fst (EnumerateGPUs nv))"
proof -
  have none: "list_all (\<lambda>h. \<not> usable nv h) gpu_handles \<Longrightarrow> filter (usable nv) gpu_handles = []"
    by (induction gpu_handles) auto
  show ?thesis
    using assms EnumerateGPUs_loop_out [of "[]" nv gpu_handles "[]"] none
    by (auto simp: EnumerateGPUs_def EnumerateGPUs_loop_gpus is_diagnostic_PrintError)
qed

theorem EnumerateGPUs_skips_failures_witness:
  "snd (EnumerateGPUs sample_nv) = [sample_gpu 0, sample_gpu 2]
   \<and> fst (EnumerateGPUs sample_nv)
       = [Stderr (''NvAPI_GPU_GetFullName failed: Error 0xFFFFFFFA'' @ newline)]"
proof -
  have call: "NvAPI_EnumPhysicalGPUs sample_nv = (0, [Handle 0, Handle 1, Handle 2])"
    by (simp add: sample_nv_def)
  have "snd (EnumerateGPUs sample_nv) = [sample_gpu 0, sample_gpu 2]"
    using EnumerateGPUs_skips_failures [OF call]
    by (simp add: NVAPI_OK_def usable_def device_record_def sample_nv_def sample_gpu_def)
  moreover have "fst (EnumerateGPUs sample_nv)
       = [Stderr (''NvAPI_GPU_GetFullName failed: Error 0xFFFFFFFA'' @ newline)]"
    by (simp add: EnumerateGPUs_def sample_nv_def NVAPI_OK_def PrintError_text
        show_hex8_def digit_char_def)
  ultimately show ?thesis by simp
qed

subsection \<open>Startup and the sampling loop\<close>

lemma is_output_PrintError: "list_all is_output (PrintError status msg)"
  by (simp add: PrintError_def is_output_def)

lemma is_output_PrintGPUStatus: "list_all is_output (PrintGPUStatus nv gpu)"
  by (auto simp: PrintGPUStatus_def PrintGPUCurrentClocks_def PrintGPUCurrentTemperature_def
      PrintGPUCurrentFanSpeed_def PrintGPUCurrentMemoryUsage_def is_output_PrintError
      is_output_def Let_def split: prod.splits)

lemma is_output_PrintGPUInfo: "list_all is_output (PrintGPUInfo nv gpu)"
  by (auto simp: PrintGPUInfo_def PrintGPUClockInfo_def is_output_PrintError
      is_output_def Let_def split: prod.splits)

lemma is_output_concat_map:
  "(\<And>x. list_all is_output (f x)) \<Longrightarrow> list_all is_output (concat (map f xs))"
  by (induction xs) auto

lemma is_diagnostic_is_output: "list_all is_diagnostic xs \<Longrightarrow> list_all is_output xs"
  by (induction xs) (auto simp: is_diagnostic_def is_output_def split: effect.splits)

text \<open>The loop never hands control back, and one more unit of fuel buys one more pass.\<close>

lemma sampling_loop_running: "snd (sampling_loop live gpus k fuel) = None"
  by (induction fuel arbitrary: k) (simp_all add: Let_def case_prod_beta)

lemma is_output_no_control:
  "list_all is_output xs \<Longrightarrow> NvAPI_Unload \<notin> set xs \<and> filter (\<lambda>e. e = Sleep n) xs = []"
  by (induction xs) (auto simp: is_output_def split: effect.splits)

lemma sampling_loop_Suc:
  "fst (sampling_loop live gpus k (Suc fuel))
     = fst (sampling_loop live gpus k fuel)
       @ concat (map (PrintGPUStatus (live (k + fuel))) gpus) @ [Sleep 1000]"
proof (induction fuel arbitrary: k)
  case 0
  show ?case by (simp add: Let_def)
next
  case (Suc fuel)
  have "fst (sampling_loop live gpus k (Suc (Suc fuel)))
          = concat (map (PrintGPUStatus (live k)) gpus) @ [Sleep 1000]
            @ fst (sampling_loop live gpus (Suc k) (Suc fuel))"
    by (simp add: Let_def split: prod.splits)
  also have "\<dots> = concat (map (PrintGPUStatus (live k)) gpus) @ [Sleep 1000]
            @ fst (sampling_loop live gpus (Suc k) fuel)
            @ concat (map (PrintGPUStatus (live (Suc k + fuel))) gpus) @ [Sleep 1000]"
    by (simp only: Suc.IH)
  also have "\<dots> = fst (sampling_loop live gpus k (Suc fuel))
            @ concat (map (PrintGPUStatus (live (k + Suc fuel))) gpus) @ [Sleep 1000]"
    by (simp add: Let_def split: prod.splits)
  finally show ?case .
qed

lemma sampling_loop_effects:
  "NvAPI_Unload \<notin> set (fst (sampling_loop live gpus k fuel))
   \<and> length (filter (\<lambda>e. e = Sleep 1000) (fst (sampling_loop live gpus k fuel))) = fuel"
proof (induction fuel)
  case 0
  show ?case by simp
next
  case (Suc fuel)
  have "list_all is_output (concat (map (PrintGPUStatus (live (k + fuel))) gpus))"
    by (rule is_output_concat_map) (rule is_output_PrintGPUStatus)
  from is_output_no_control [OF this, of 1000] Suc show ?case
    by (simp only: sampling_loop_Suc) auto
qed

lemma main_running:
  assumes "NvAPI_Initialize nv = NVAPI_OK" and "snd (EnumerateGPUs nv) \<noteq> []"
  shows "main nv live fuel =
           (fst (EnumerateGPUs nv) @ concat (map (PrintGPUInfo nv) (snd (EnumerateGPUs nv)))
              @ fst (sampling_loop live (snd (EnumerateGPUs nv)) 0 fuel), None)"
  using assms sampling_loop_running [of live "snd (EnumerateGPUs nv)" 0 fuel]
  by (auto simp: main_def Let_def split: prod.splits)

lemma EnumerateGPUs_diagnostics_only: "list_all is_diagnostic (fst (EnumerateGPUs nv))"
  using EnumerateGPUs_loop_out [of "[]" nv "snd (NvAPI_EnumPhysicalGPUs nv)" "[]"]
  by (auto simp: EnumerateGPUs_def is_diagnostic_PrintError split: prod.splits)

lemma EnumerateGPUs_sample:
  "EnumerateGPUs sample_nv
     = ([Stderr (''NvAPI_GPU_GetFullName failed: Error 0xFFFFFFFA'' @ newline)],
        [sample_gpu 0, sample_gpu 2])"
  by (simp add: EnumerateGPUs_def sample_nv_def sample_gpu_def NVAPI_OK_def PrintError_text
      show_hex8_def digit_char_def)

text \<open>
  Claim C6. If \<^verbatim>\<open>NvAPI_Initialize\<close> fails, the program writes one diagnostic and exits
  with \<^verbatim>\<open>EXIT_FAILURE\<close>. If initialisation succeeds and enumeration yields no device, it
  writes the diagnostics of the enumeration, then \<open>No GPUs found.\<close> to the error stream,
  unloads NVAPI and exits with \<^verbatim>\<open>EXIT_FAILURE\<close>. Neither result depends on the fuel of
  the sampling loop or on what NVAPI would answer during sampling, and neither holds a
  write to standard output or a sleep: the sampling loop is not entered. The exit status
  is not zero.
\<close>

theorem main_startup_failure:
  "(NvAPI_Initialize nv \<noteq> NVAPI_OK \<longrightarrow>
      main nv live fuel =
        ([Stderr (''NVAPI_Initialize failed: Error 0x'' @ show_hex8 (NvAPI_Initialize nv) @ newline)],
         Some EXIT_FAILURE))
   \<and> (NvAPI_Initialize nv = NVAPI_OK \<and> snd (EnumerateGPUs nv) = [] \<longrightarrow>
        main nv live fuel =
          (fst (EnumerateGPUs nv) @ [Stderr (''No GPUs found.'' @ newline), NvAPI_Unload],
           Some EXIT_FAILURE)
        \<and> list_all is_diagnostic (fst (EnumerateGPUs nv)))
   \<and> EXIT_FAILURE \<noteq> EXIT_SUCCESS \<and> EXIT_FAILURE \<noteq> 0"
  using EnumerateGPUs_diagnostics_only [of nv]
  by (auto simp: main_def Let_def PrintError_text EXIT_FAILURE_def EXIT_SUCCESS_def
      split: prod.splits)

theorem main_startup_failure_witness:
  "main (sample_nv\<lparr>NvAPI_Initialize := - 2\<rparr>) (\<lambda>k. sample_nv) 5
     = ([Stderr (''NVAPI_Initialize failed: Error 0xFFFFFFFE'' @ newline)], Some 1)
   \<and> main (sample_nv\<lparr>NvAPI_EnumPhysicalGPUs := (0, [Handle 1])\<rparr>) (\<lambda>k. sample_nv) 5
     = ([Stderr (''NvAPI_GPU_GetFullName failed: Error 0xFFFFFFFA'' @ newline),
         Stderr (''No GPUs found.'' @ newline), NvAPI_Unload], Some 1)"
proof -
  have init: "NvAPI_Initialize (sample_nv\<lparr>NvAPI_Initialize := - 2\<rparr>) \<noteq> NVAPI_OK"
    by (simp add: NVAPI_OK_def)
  have hex: "show_hex8 (- 2) = ''FFFFFFFE''"
    by (simp add: show_hex8_def digit_char_def)
  have ok: "NvAPI_Initialize (sample_nv\<lparr>NvAPI_EnumPhysicalGPUs := (0, [Handle 1])\<rparr>) = NVAPI_OK"
    by (simp add: sample_nv_def NVAPI_OK_def)
  have enum: "EnumerateGPUs (sample_nv\<lparr>NvAPI_EnumPhysicalGPUs := (0, [Handle 1])\<rparr>)
                = ([Stderr (''NvAPI_GPU_GetFullName failed: Error 0xFFFFFFFA'' @ newline)], [])"
    by (simp add: EnumerateGPUs_def sample_nv_def NVAPI_OK_def PrintError_text
        show_hex8_def digit_char_def)
  from main_startup_failure [of "sample_nv\<lparr>NvAPI_Initialize := - 2\<rparr>" "\<lambda>k. sample_nv" 5]
    main_startup_failure [of "sample_nv\<lparr>NvAPI_EnumPhysicalGPUs := (0, [Handle 1])\<rparr>" "\<lambda>k. sample_nv" 5]
    init hex ok enum
  show ?thesis
    by (simp add: EXIT_FAILURE_def)
qed

text \<open>
  Claim C8. Once startup has succeeded (initialisation succeeds and at least one device is
  enumerated), the program has no exit status whatever the fuel is: control never leaves
  the sampling loop. After any number of passes one more pass follows, made of the status
  report of every enumerated device and a sleep of one second. The teardown call
  \<^verbatim>\<open>NvAPI_Unload\<close> that stands after the loop is never made.
\<close>

theorem sampling_loop_never_exits:
  assumes "NvAPI_Initialize nv = NVAPI_OK" and "snd (EnumerateGPUs nv) \<noteq> []"
  shows "snd (main nv live fuel) = None
         \<and> fst (main nv live (Suc fuel))
             = fst (main nv live fuel)
               @ concat (map (PrintGPUStatus (live fuel)) (snd (EnumerateGPUs nv))) @ [Sleep 1000]
         \<and> length (filter (\<lambda>e. e = Sleep 1000) (fst (main nv live fuel))) = fuel
         \<and> NvAPI_Unload \<notin> set (fst (main nv live fuel))"
proof -
  let ?gpus = "snd (EnumerateGPUs nv)"
  have enumerated: "list_all is_output (fst (EnumerateGPUs nv))"
    by (rule is_diagnostic_is_output) (rule EnumerateGPUs_diagnostics_only)
  have info: "list_all is_output (concat (map (PrintGPUInfo nv) ?gpus))"
    by (rule is_output_concat_map) (rule is_output_PrintGPUInfo)
  note quiet = is_output_no_control [OF enumerated, of 1000] is_output_no_control [OF info, of 1000]
  show ?thesis
    using quiet sampling_loop_effects [of live ?gpus 0 fuel]
    by (simp add: main_running [OF assms] sampling_loop_Suc del: sampling_loop.simps)
qed

theorem sampling_loop_never_exits_witness:
  "snd (main sample_nv (\<lambda>k. sample_nv) 3) = None
   \<and> length (filter (\<lambda>e. e = Sleep 1000) (fst (main sample_nv (\<lambda>k. sample_nv) 3))) = 3
   \<and> NvAPI_Unload \<notin> set (fst (main sample_nv (\<lambda>k. sample_nv) 3))"
proof -
  have init: "NvAPI_Initialize sample_nv = NVAPI_OK"
    by (simp add: sample_nv_def NVAPI_OK_def)
  have enum: "snd (EnumerateGPUs sample_nv) \<noteq> []"
    by (simp add: EnumerateGPUs_sample)
  from sampling_loop_never_exits [OF init enum, of "\<lambda>k. sample_nv" 3] show ?thesis
    by simp
qed

subsection \<open>Rounding\<close>

text \<open>
  Rounding to the nearest integer is off by at most one half; rounding to a 24-bit
  significand is off by at most one part in \<open>2 ^ 24\<close> of the exact value.
\<close>

lemma round_half_even_error:
  assumes "0 < b"
  shows "\<bar>of_nat (round_half_even a b) - (of_nat a / of_nat b :: rat)\<bar> \<le> 1 / 2"
proof -
  define q where "q = a div b"
  define r where "r = a mod b"
  define B :: rat where "B = of_nat b"
  define R :: rat where "R = of_nat r"
  define Q :: rat where "Q = of_nat q"
  have "a = q * b + r"
    by (simp add: q_def r_def)
  then have "(of_nat a :: rat) = Q * B + R"
    by (simp add: Q_def B_def R_def)
  moreover have Bpos: "0 < B"
    using assms by (simp add: B_def)
  ultimately have quot: "(of_nat a :: rat) / of_nat b = Q + R / B"
    by (simp add: B_def field_simps)
  have Rnonneg: "0 \<le> R"
    by (simp add: R_def)
  have "r < b"
    using assms by (simp add: r_def)
  then have Rless: "R < B"
    by (simp add: R_def B_def)
  have lo: "2 * r < b \<Longrightarrow> 2 * R < B"
    unfolding R_def B_def by (metis of_nat_less_iff of_nat_mult of_nat_numeral)
  have hi: "b < 2 * r \<Longrightarrow> B < 2 * R"
    unfolding R_def B_def by (metis of_nat_less_iff of_nat_mult of_nat_numeral)
  have mid: "\<not> 2 * r < b \<Longrightarrow> \<not> b < 2 * r \<Longrightarrow> 2 * R = B"
    unfolding R_def B_def by (metis linorder_neqE_nat of_nat_mult of_nat_numeral)
  have down: "2 * R \<le> B \<Longrightarrow> \<bar>Q - (Q + R / B)\<bar> \<le> 1 / 2"
    using Bpos Rnonneg by (simp add: field_simps)
  have up: "B \<le> 2 * R \<Longrightarrow> \<bar>(Q + 1) - (Q + R / B)\<bar> \<le> 1 / 2"
    using Bpos Rless by (simp add: field_simps abs_if)
  show ?thesis
    unfolding quot round_half_even_def Let_def q_def [symmetric] r_def [symmetric]
    using lo hi mid down up by (auto simp: Q_def)
qed

lemma two_powi_split: "(2::rat) powi (i - j) = 2 powi i / 2 powi j"
  by (simp add: power_int_diff)

lemma binary_exponent_lower:
  assumes "0 < a" and "0 < b"
  shows "(2::rat) powi floor_log2_quotient a b \<le> of_nat a / of_nat b"
proof -
  define d where "d = int (floorlog 2 a) - int (floorlog 2 b)"
  have bpos: "(0::rat) < of_nat b"
    using assms by simp
  have test_nonneg: "(2::rat) powi d \<le> of_nat a / of_nat b" if "0 \<le> d" and "b * 2 ^ nat d \<le> a"
  proof -
    have "(of_nat (b * 2 ^ nat d) :: rat) \<le> of_nat a"
      using that(2) by (simp only: of_nat_le_iff)
    then have "(of_nat b :: rat) * 2 ^ nat d \<le> of_nat a"
      by simp
    then have "(2::rat) ^ nat d \<le> of_nat a / of_nat b"
      using bpos by (simp add: field_simps)
    then show ?thesis
      using that(1) by (simp add: power_int_nonneg_exp)
  qed
  have test_neg: "(2::rat) powi d \<le> of_nat a / of_nat b" if "d < 0" and "b \<le> a * 2 ^ nat (- d)"
  proof -
    have "(of_nat b :: rat) \<le> of_nat (a * 2 ^ nat (- d))"
      using that(2) by (simp only: of_nat_le_iff)
    then have "(of_nat b :: rat) \<le> of_nat a * 2 ^ nat (- d)"
      by simp
    then have "1 / (2::rat) ^ nat (- d) \<le> of_nat a / of_nat b"
      using bpos by (simp add: field_simps)
    moreover have "(2::rat) powi d = 1 / 2 ^ nat (- d)"
      using that(1) power_int_minus_divide [of "2::rat" "- d"]
      by (simp add: power_int_nonneg_exp)
    ultimately show ?thesis
      by simp
  qed
  have below: "(2::rat) powi (d - 1) \<le> of_nat a / of_nat b"
  proof -
    have fa: "2 ^ (floorlog 2 a - 1) \<le> a" and fb: "b < 2 ^ floorlog 2 b"
      using floorlog_bounds [of a 2] floorlog_bounds [of b 2] assms by simp_all
    have "0 < floorlog 2 a"
      using assms(1) by (simp add: floorlog_def)
    then have "d - 1 = int (floorlog 2 a - 1) - int (floorlog 2 b)"
      by (simp add: d_def)
    then have "(2::rat) powi (d - 1) = 2 ^ (floorlog 2 a - 1) / 2 ^ floorlog 2 b"
      by (simp only: two_powi_split power_int_of_nat)
    also have "\<dots> \<le> of_nat a / of_nat b"
    proof (rule frac_le)
      show "(0::rat) \<le> of_nat a" by simp
      show "(2::rat) ^ (floorlog 2 a - 1) \<le> of_nat a"
        using fa by (metis of_nat_le_iff of_nat_numeral of_nat_power)
      show "(0::rat) < of_nat b" by (rule bpos)
      show "(of_nat b :: rat) \<le> 2 ^ floorlog 2 b"
        using fb by (metis less_imp_le of_nat_le_iff of_nat_numeral of_nat_power)
    qed
    finally show ?thesis .
  qed
  show ?thesis
    unfolding floor_log2_quotient_def Let_def d_def [symmetric]
    using test_nonneg test_neg below by (auto split: if_splits)
qed

lemma binary_exponent_upper:
  assumes "0 < a" and "0 < b"
  shows "of_nat a / of_nat b < (2::rat) powi (floor_log2_quotient a b + 1)"
proof -
  define d where "d = int (floorlog 2 a) - int (floorlog 2 b)"
  have bpos: "(0::rat) < of_nat b"
    using assms by simp
  have test_nonneg: "of_nat a / of_nat b < (2::rat) powi d" if "0 \<le> d" and "\<not> b * 2 ^ nat d \<le> a"
  proof -
    have "(of_nat a :: rat) < of_nat (b * 2 ^ nat d)"
      using that(2) by (simp only: of_nat_less_iff not_le)
    then have "(of_nat a :: rat) < of_nat b * 2 ^ nat d"
      by simp
    then have "of_nat a / of_nat b < (2::rat) ^ nat d"
      using bpos by (simp add: field_simps)
    then show ?thesis
      using that(1) by (simp add: power_int_nonneg_exp)
  qed
  have test_neg: "of_nat a / of_nat b < (2::rat) powi d" if "d < 0" and "\<not> b \<le> a * 2 ^ nat (- d)"
  proof -
    have "(of_nat (a * 2 ^ nat (- d)) :: rat) < of_nat b"
      using that(2) by (simp only: of_nat_less_iff not_le)
    then have "(of_nat a :: rat) * 2 ^ nat (- d) < of_nat b"
      by simp
    then have "of_nat a / of_nat b < 1 / (2::rat) ^ nat (- d)"
      using bpos by (simp add: field_simps)
    moreover have "(2::rat) powi d = 1 / 2 ^ nat (- d)"
      using that(1) power_int_minus_divide [of "2::rat" "- d"]
      by (simp add: power_int_nonneg_exp)
    ultimately show ?thesis
      by simp
  qed
  have above: "of_nat a / of_nat b < (2::rat) powi (d + 1)"
  proof -
    have fa: "a < 2 ^ floorlog 2 a" and fb: "2 ^ (floorlog 2 b - 1) \<le> b"
      using floorlog_bounds [of a 2] floorlog_bounds [of b 2] assms by simp_all
    have "0 < floorlog 2 b"
      using assms(2) by (simp add: floorlog_def)
    then have "d + 1 = int (floorlog 2 a) - int (floorlog 2 b - 1)"
      by (simp add: d_def)
    then have "(2::rat) powi (d + 1) = 2 ^ floorlog 2 a / 2 ^ (floorlog 2 b - 1)"
      by (simp only: two_powi_split power_int_of_nat)
    moreover have "of_nat a / of_nat b < (2::rat) ^ floorlog 2 a / 2 ^ (floorlog 2 b - 1)"
    proof (rule frac_less)
      show "(0::rat) \<le> of_nat a" by simp
      show "(of_nat a :: rat) < 2 ^ floorlog 2 a"
        using fa by (metis of_nat_less_iff of_nat_numeral of_nat_power)
      show "(0::rat) < 2 ^ (floorlog 2 b - 1)" by simp
      show "(2::rat) ^ (floorlog 2 b - 1) \<le> of_nat b"
        using fb by (metis of_nat_le_iff of_nat_numeral of_nat_power)
    qed
    ultimately show ?thesis
      by simp
  qed
  show ?thesis
    unfolding floor_log2_quotient_def Let_def d_def [symmetric]
    using test_nonneg test_neg above by (auto split: if_splits)
qed

lemma round_binary32_near:
  assumes "0 < a" and "0 < b"
  shows "snd (round_binary32 a b) = floor_log2_quotient a b - 23
         \<and> \<bar>of_nat (fst (round_binary32 a b))
              - of_nat a / of_nat b / 2 powi (floor_log2_quotient a b - 23)\<bar> \<le> (1 / 2 :: rat)"
proof -
  define e where "e = floor_log2_quotient a b - 23"
  define x :: rat where "x = of_nat a / of_nat b"
  define s :: rat where "s = 2 powi e"
  define m where "m = fst (round_binary32 a b)"
  have result: "round_binary32 a b =
      (if 0 \<le> e then (round_half_even a (b * 2 ^ nat e), e)
       else (round_half_even (a * 2 ^ nat (- e)) b, e))"
    using assms(1) by (simp add: round_binary32_def e_def Let_def)
  have near: "\<bar>of_nat m - x / s\<bar> \<le> 1 / 2"
  proof (cases "0 \<le> e")
    case True
    then have "s = 2 ^ nat e"
      by (simp add: s_def power_int_nonneg_exp)
    then have "x / s = of_nat a / of_nat (b * 2 ^ nat e)"
      by (simp add: x_def)
    moreover have "m = round_half_even a (b * 2 ^ nat e)"
      using True by (simp add: m_def result)
    ultimately show ?thesis
      using round_half_even_error [of "b * 2 ^ nat e" a] assms by simp
  next
    case False
    then have "s = 1 / 2 ^ nat (- e)"
      using power_int_minus_divide [of "2::rat" "- e"]
      by (simp add: s_def power_int_nonneg_exp)
    then have "x / s = of_nat (a * 2 ^ nat (- e)) / of_nat b"
      by (simp add: x_def)
    moreover have "m = round_half_even (a * 2 ^ nat (- e)) b"
      using False by (simp add: m_def result)
    ultimately show ?thesis
      using round_half_even_error [of b "a * 2 ^ nat (- e)"] assms by simp
  qed
  moreover have "snd (round_binary32 a b) = e"
    by (simp add: result)
  ultimately show ?thesis
    by (simp only: m_def x_def s_def e_def)
qed

text \<open>The significand of a rounded positive quotient has 24 bits.\<close>

lemma round_binary32_significand:
  assumes "0 < a" and "0 < b"
  shows "2 ^ 23 \<le> fst (round_binary32 a b) \<and> fst (round_binary32 a b) \<le> 2 ^ 24"
proof -
  define l where "l = floor_log2_quotient a b"
  define x :: rat where "x = of_nat a / of_nat b"
  define y :: rat where "y = x / 2 powi (l - 23)"
  define m where "m = fst (round_binary32 a b)"
  have low: "2 powi l \<le> x" and up: "x < 2 powi (l + 1)"
    unfolding l_def x_def
    using binary_exponent_lower [OF assms] binary_exponent_upper [OF assms] by simp_all
  have lpos: "(0::rat) < 2 powi l"
    by simp
  have y: "y = x * 2 ^ 23 / 2 powi l"
    by (simp add: y_def two_powi_split)
  have "2 ^ 23 * 2 powi l \<le> x * 2 ^ 23"
    using low by simp
  then have ylow: "2 ^ 23 \<le> y"
    unfolding y using lpos by (simp add: pos_le_divide_eq)
  have "(2::rat) powi (l + 1) = 2 * 2 powi l"
    by (simp add: power_int_add)
  with up have "x * 2 ^ 23 < 2 ^ 24 * 2 powi l"
    by simp
  then have yup: "y < 2 ^ 24"
    unfolding y using lpos by (simp add: pos_divide_less_eq)
  have near: "\<bar>of_nat m - y\<bar> \<le> 1 / 2"
    unfolding m_def y_def x_def l_def using round_binary32_near [OF assms] by simp
  from near have above: "- (of_nat m - y) \<le> 1 / 2" and below: "of_nat m - y \<le> 1 / 2"
    unfolding abs_le_iff by blast+
  have p23: "(2::rat) ^ 23 = 8388608" and p24: "(2::rat) ^ 24 = 16777216"
    by simp_all
  have "(8388607::rat) < of_nat m"
    using above ylow unfolding p23 by linarith
  then have "(of_nat (8388607::nat) :: rat) < of_nat m"
    by simp
  then have "8388607 < m"
    by (simp only: of_nat_less_iff)
  moreover have "(of_nat m :: rat) < 16777217"
    using below yup unfolding p24 by linarith
  then have "(of_nat m :: rat) < of_nat (16777217::nat)"
    by simp
  then have "m < 16777217"
    by (simp only: of_nat_less_iff)
  ultimately show ?thesis
    by (simp add: m_def)
qed

lemma round_binary32_error:
  assumes "0 < b"
  shows "\<bar>b32_value (round_binary32 a b) - of_nat a / of_nat b\<bar> \<le> of_nat a / of_nat b / 2 ^ 24"
proof (cases "a = 0")
  case True
  then show ?thesis
    by (simp add: round_binary32_def b32_value_def)
next
  case False
  define l where "l = floor_log2_quotient a b"
  define x :: rat where "x = of_nat a / of_nat b"
  define s :: rat where "s = 2 powi (l - 23)"
  define m where "m = fst (round_binary32 a b)"
  have apos: "0 < a"
    using False by simp
  have low: "2 powi l \<le> x"
    unfolding l_def x_def by (rule binary_exponent_lower [OF apos assms])
  have spos: "0 < s"
    by (simp add: s_def)
  have s_l: "s = 2 powi l / 2 ^ 23"
    by (simp add: s_def two_powi_split)
  have near: "\<bar>of_nat m - x / s\<bar> \<le> 1 / 2"
    unfolding m_def x_def s_def l_def using round_binary32_near [OF apos assms] by simp
  have denotes: "b32_value (round_binary32 a b) = of_nat m * s"
    using round_binary32_near [OF apos assms] by (simp add: b32_value_def m_def s_def l_def)
  have "\<bar>of_nat m * s - x\<bar> = s * \<bar>of_nat m - x / s\<bar>"
    using spos by (simp add: abs_mult [symmetric] field_simps)
  also have "\<dots> \<le> s * (1 / 2)"
    using near spos by (simp only: mult_le_cancel_left_pos)
  also have "\<dots> = 2 powi l / 2 ^ 24"
    by (simp add: s_l)
  also have "\<dots> \<le> x / 2 ^ 24"
    using low by (simp add: divide_right_mono)
  finally show ?thesis
    by (simp add: denotes x_def)
qed

lemma round_binary32_nat_error:
  "\<bar>b32_value (round_binary32 n 1) - of_nat n\<bar> \<le> of_nat n / 2 ^ 24"
  using round_binary32_error [of 1 n] by simp

lemma b32_value_quotient:
  "b32_value x / b32_value y = of_nat (fst x) / of_nat (fst y) * 2 powi (snd x - snd y)"
  by (simp add: b32_value_def two_powi_split)

lemma float_div_error:
  assumes "0 < fst y"
  shows "\<bar>b32_value (float_div x y) - b32_value x / b32_value y\<bar>
           \<le> b32_value x / b32_value y / 2 ^ 24"
proof (cases "0 \<le> snd x - snd y")
  case True
  then have "b32_value x / b32_value y = of_nat (fst x * 2 ^ nat (snd x - snd y)) / of_nat (fst y)"
    by (simp add: b32_value_quotient power_int_nonneg_exp)
  moreover have "float_div x y = round_binary32 (fst x * 2 ^ nat (snd x - snd y)) (fst y)"
    using True by (simp add: float_div_def Let_def)
  ultimately show ?thesis
    using round_binary32_error [of "fst y" "fst x * 2 ^ nat (snd x - snd y)"] assms
    by (simp only:)
next
  case False
  then have "(2::rat) powi (snd x - snd y) = 1 / 2 ^ nat (- (snd x - snd y))"
    using power_int_minus_divide [of "2::rat" "- (snd x - snd y)"]
    by (simp add: power_int_nonneg_exp)
  then have "b32_value x / b32_value y
               = of_nat (fst x) / of_nat (fst y * 2 ^ nat (- (snd x - snd y)))"
    by (simp add: b32_value_quotient)
  moreover have "float_div x y = round_binary32 (fst x) (fst y * 2 ^ nat (- (snd x - snd y)))"
    using False by (simp add: float_div_def Let_def)
  ultimately show ?thesis
    using round_binary32_error [of "fst y * 2 ^ nat (- (snd x - snd y))" "fst x"] assms
    by (simp only: nat_0_less_mult_iff zero_less_power zero_less_numeral simp_thms)
qed

lemma hundredths_error: "\<bar>of_nat (hundredths x) - 100 * b32_value x\<bar> \<le> 1 / 2"
proof (cases "0 \<le> snd x")
  case True
  then show ?thesis
    by (simp add: hundredths_def b32_value_def power_int_nonneg_exp)
next
  case False
  then have "(2::rat) powi snd x = 1 / 2 ^ nat (- snd x)"
    using power_int_minus_divide [of "2::rat" "- snd x"]
    by (simp add: power_int_nonneg_exp)
  then have "100 * b32_value x = of_nat (100 * fst x) / of_nat (2 ^ nat (- snd x))"
    by (simp add: b32_value_def)
  then show ?thesis
    using False round_half_even_error [of "2 ^ nat (- snd x)" "100 * fst x"]
    by (simp add: hundredths_def)
qed

lemma rounding_chain:
  fixes g X f2 c :: rat
  assumes "\<bar>g - X\<bar> \<le> X / 2 ^ 24" and "\<bar>f2 - g\<bar> \<le> g / 2 ^ 24"
    and "\<bar>c - 100 * f2\<bar> \<le> 1 / 2" and "0 \<le> X"
  shows "\<bar>c / 100 - X\<bar> \<le> 1 / 200 + X / 2 ^ 22"
proof -
  have p24: "(2::rat) ^ 24 = 16777216" and p22: "(2::rat) ^ 22 = 4194304"
    by simp_all
  from assms(1) have g: "g - X \<le> X / 16777216" "- (g - X) \<le> X / 16777216"
    unfolding abs_le_iff p24 by blast+
  from assms(2) have f: "f2 - g \<le> g / 16777216" "- (f2 - g) \<le> g / 16777216"
    unfolding abs_le_iff p24 by blast+
  from assms(3) have c: "c - 100 * f2 \<le> 1 / 2" "- (c - 100 * f2) \<le> 1 / 2"
    unfolding abs_le_iff by blast+
  have up: "c / 100 - X \<le> 1 / 200 + X / 4194304"
    using g f c assms(4) by linarith
  have down: "- (c / 100 - X) \<le> 1 / 200 + X / 4194304"
    using g f c assms(4) by linarith
  show ?thesis
    unfolding abs_le_iff p22 using up down by blast
qed

text \<open>
  The number printed for \<open>v / D\<close>: the conversion and the division each lose at most one
  part in \<open>2 ^ 24\<close>, the rounding to hundredths at most half a hundredth.
\<close>

lemma scaled_accuracy_nat:
  assumes "0 < D"
  shows "\<bar>of_nat (hundredths (float_div (round_binary32 n 1) (D, 0))) / 100
           - of_nat n / of_nat D\<bar>
         \<le> (1 / 200 + of_nat n / of_nat D / 2 ^ 22 :: rat)"
proof -
  define X :: rat where "X = of_nat n / of_nat D"
  define f1 where "f1 = b32_value (round_binary32 n 1)"
  define g where "g = f1 / of_nat D"
  define f2 where "f2 = b32_value (float_div (round_binary32 n 1) (D, 0))"
  define c :: rat where "c = of_nat (hundredths (float_div (round_binary32 n 1) (D, 0)))"
  have Dpos: "(0::rat) < of_nat D"
    using assms by simp
  have Xnonneg: "0 \<le> X"
    by (simp add: X_def)
  have "\<bar>f1 - of_nat n\<bar> \<le> of_nat n / 2 ^ 24"
    unfolding f1_def by (rule round_binary32_nat_error)
  then have "\<bar>f1 - of_nat n\<bar> / of_nat D \<le> of_nat n / 2 ^ 24 / of_nat D"
    using Dpos by (simp only: divide_right_mono less_imp_le)
  moreover have "\<bar>f1 - of_nat n\<bar> / of_nat D = \<bar>g - X\<bar>"
  proof -
    have "g - X = (f1 - of_nat n) / of_nat D"
      by (simp add: g_def X_def diff_divide_distrib)
    then have "\<bar>g - X\<bar> = \<bar>f1 - of_nat n\<bar> / \<bar>of_nat D\<bar>"
      by (simp only: abs_divide)
    then show ?thesis
      by simp
  qed
  ultimately have cast: "\<bar>g - X\<bar> \<le> X / 2 ^ 24"
    by (simp add: X_def)
  have "b32_value (D, 0) = of_nat D"
    by (simp add: b32_value_def)
  then have quot: "\<bar>f2 - g\<bar> \<le> g / 2 ^ 24"
    using float_div_error [of "(D, 0)" "round_binary32 n 1"] assms
    by (simp add: f2_def g_def f1_def)
  have cents: "\<bar>c - 100 * f2\<bar> \<le> 1 / 2"
    unfolding c_def f2_def by (rule hundredths_error)
  have "\<bar>c / 100 - X\<bar> \<le> 1 / 200 + X / 2 ^ 22"
    by (rule rounding_chain [OF cast quot cents Xnonneg])
  then show ?thesis
    by (simp only: c_def X_def)
qed

lemma hundredths_below_nat:
  assumes "0 < D" and "n < 2 ^ 32"
  shows "hundredths (float_div (round_binary32 n 1) (D, 0)) < 10 ^ 12"
proof -
  define c where "c = hundredths (float_div (round_binary32 n 1) (D, 0))"
  define X :: rat where "X = of_nat n / of_nat D"
  have n: "(of_nat n :: rat) < 2 ^ 32"
    using assms(2) by (metis of_nat_less_iff of_nat_numeral of_nat_power)
  have D: "(1::rat) \<le> of_nat D"
    using assms(1) by simp
  have "(of_nat n :: rat) / of_nat D \<le> of_nat n / 1"
    by (rule frac_le) (use D in simp_all)
  with n have "X < 2 ^ 32"
    by (simp add: X_def)
  moreover have "0 \<le> X"
    by (simp add: X_def)
  moreover have "\<bar>of_nat c / 100 - X\<bar> \<le> 1 / 200 + X / 2 ^ 22"
    unfolding c_def X_def by (rule scaled_accuracy_nat [OF assms(1)])
  ultimately have "(of_nat c :: rat) < 10 ^ 12"
    by (simp add: abs_le_iff)
  then have "c < 10 ^ 12"
    by (metis of_nat_less_iff of_nat_numeral of_nat_power)
  then show ?thesis
    by (simp add: c_def)
qed

subsection \<open>The formatters\<close>

lemma is_digit_digit_char: "d < 10 \<Longrightarrow> is_digit (digit_char d)"
proof -
  assume "d < 10"
  then have "d \<in> {0, 1, 2, 3, 4, 5, 6, 7, 8, 9}"
    by auto
  then show ?thesis
    by (auto simp: is_digit_def digit_char_def)
qed

lemma show_nat_digits: "list_all is_digit (show_nat n) \<and> show_nat n \<noteq> []"
proof (induction n rule: show_nat.induct)
  case (1 n)
  show ?case
  proof (cases "n < 10")
    case True
    then show ?thesis
      by (subst (1 2) show_nat.simps) (simp add: is_digit_digit_char)
  next
    case False
    with 1 show ?thesis
      by (subst (1 2) show_nat.simps) (simp add: is_digit_digit_char)
  qed
qed

lemma length_show_nat: "n < 10 ^ k \<Longrightarrow> 0 < k \<Longrightarrow> length (show_nat n) \<le> k"
proof (induction n arbitrary: k rule: show_nat.induct)
  case (1 n)
  show ?case
  proof (cases "n < 10")
    case True
    with 1(3) show ?thesis
      by (subst show_nat.simps) simp
  next
    case False
    obtain j where k: "k = Suc j"
      using 1(3) by (cases k) auto
    have "0 < j"
      using False 1(2) k by (cases j) auto
    moreover have "n div 10 < 10 ^ j"
      using 1(2) k by (simp add: less_mult_imp_div_less mult.commute)
    ultimately have "length (show_nat (n div 10)) \<le> j"
      using 1(1) False by simp
    then show ?thesis
      using False k by (subst show_nat.simps) simp
  qed
qed

lemma two_decimals_show_hundredths: "two_decimals (show_hundredths c)"
proof -
  define ip where "ip = show_nat (c div 100)"
  have ip: "list_all is_digit ip" "ip \<noteq> []"
    using show_nat_digits [of "c div 100"] by (simp_all add: ip_def)
  then have "Suc 0 \<le> length ip"
    by (cases ip) simp_all
  then show ?thesis
    using ip
    by (simp add: two_decimals_def show_hundredths_def ip_def [symmetric] nth_append
        is_digit_digit_char)
qed

lemma length_show_hundredths: "c < 10 ^ 12 \<Longrightarrow> length (show_hundredths c) \<le> 13"
proof -
  assume "c < 10 ^ 12"
  then have "c div 100 < 10 ^ 10"
    by simp
  then have "length (show_nat (c div 100)) \<le> 10"
    by (rule length_show_nat) simp
  then show ?thesis
    by (simp add: show_hundredths_def)
qed

lemma scaled_text_append:
  "length u = length u' \<Longrightarrow> scaled_text u (b @ u') = (u' = u \<and> two_decimals b)"
  by (auto simp: scaled_text_def)

lemma whole_text_append:
  "length u = length u' \<Longrightarrow> whole_text u (b @ u') = (u' = u \<and> b \<noteq> [] \<and> list_all is_digit b)"
  by (auto simp: whole_text_def)

text \<open>The formatted texts fit the buffer, so \<^verbatim>\<open>_snprintf_s\<close> returns them whole.\<close>

lemma snprintf_s_fits: "length s \<le> 127 \<Longrightarrow> snprintf_s 128 s = s"
  by (simp add: snprintf_s_def)

lemma length_scaled:
  assumes "0 < D"
  shows "length (show_hundredths (hundredths (float_div (float_of_u32 v) (D, 0)))) \<le> 13"
proof -
  have "unat v < 2 ^ 32"
    using unsigned_less [of v, where 'a = nat] by simp
  then have "hundredths (float_div (float_of_u32 v) (D, 0)) < 10 ^ 12"
    unfolding float_of_u32_def by (rule hundredths_below_nat [OF assms])
  then show ?thesis
    by (rule length_show_hundredths)
qed

lemma printf_2f_scaled_fits:
  assumes "0 < D" and "length unit \<le> 100"
  shows "snprintf_s 128 (printf_2f (float_div (float_of_u32 v) (D, 0)) @ unit)
           = show_hundredths (hundredths (float_div (float_of_u32 v) (D, 0))) @ unit"
  using length_scaled [OF assms(1), of v] assms(2)
  by (simp add: printf_2f_def snprintf_s_fits)

lemma FormatSizeKB_GiB:
  "1048576 < v \<Longrightarrow>
   FormatSizeKB v = show_hundredths (hundredths (float_div (float_of_u32 v) (1048576, 0))) @ '' GiB''"
  by (simp add: FormatSizeKB_def printf_2f_scaled_fits)

lemma FormatSizeKB_MiB:
  "1024 < v \<Longrightarrow> v \<le> 1048576 \<Longrightarrow>
   FormatSizeKB v = show_hundredths (hundredths (float_div (float_of_u32 v) (1024, 0))) @ '' MiB''"
  by (simp add: FormatSizeKB_def printf_2f_scaled_fits)

lemma length_show_u32: "length (show_nat (unat (v :: NvU32))) \<le> 10"
proof -
  have "unat v < 2 ^ 32"
    using unsigned_less [of v, where 'a = nat] by simp
  then have "unat v < 10 ^ 10"
    by simp
  then show ?thesis
    by (rule length_show_nat) simp
qed

lemma FormatSizeKB_KiB:
  assumes "v \<le> 1024"
  shows "FormatSizeKB v = show_nat (unat v) @ '' KiB''"
proof -
  have "\<not> 1048576 < v" and "\<not> 1024 < v"
    using assms by (simp_all add: word_le_nat_alt word_less_nat_alt)
  then show ?thesis
    using length_show_u32 [of v] by (simp add: FormatSizeKB_def snprintf_s_fits)
qed

lemma FormatSizeKB_accuracy:
  assumes "0 < D"
  shows "\<bar>of_nat (hundredths (float_div (float_of_u32 v) (D, 0))) / 100
           - of_nat (unat v) / of_nat D\<bar>
         \<le> (1 / 200 + of_nat (unat v) / of_nat D / 2 ^ 22 :: rat)"
  unfolding float_of_u32_def by (rule scaled_accuracy_nat [OF assms])

text \<open>
  Claim C1. \<^verbatim>\<open>FormatSizeKB\<close> returns a number with two decimals and the unit \<open>GiB\<close> exactly
  when the size exceeds 1048576 KiB, a number with two decimals and the unit \<open>MiB\<close> exactly
  when the size exceeds 1024 KiB and does not exceed 1048576 KiB, and a whole number with
  the unit \<open>KiB\<close> exactly when the size does not exceed 1024 KiB. The number printed in the
  two scaled tiers is the size divided by 1048576 or by 1024, up to half a hundredth and
  the rounding of single precision; in the lowest tier it is the size itself. The size
  1048576 is printed in \<open>MiB\<close>, and the sample sizes give \<open>2.00 GiB\<close>, \<open>2.00 MiB\<close> and
  \<open>512 KiB\<close>.
\<close>

theorem FormatSizeKB_tiers:
  "(scaled_text '' GiB'' (FormatSizeKB v) \<longleftrightarrow> 1048576 < v)
   \<and> (scaled_text '' MiB'' (FormatSizeKB v) \<longleftrightarrow> 1024 < v \<and> v \<le> 1048576)
   \<and> (whole_text '' KiB'' (FormatSizeKB v) \<longleftrightarrow> v \<le> 1024)
   \<and> (1048576 < v \<longrightarrow>
        (\<exists>c. FormatSizeKB v = show_hundredths c @ '' GiB''
           \<and> \<bar>of_nat c / 100 - of_nat (unat v) / 1048576\<bar>
               \<le> (1 / 200 + of_nat (unat v) / 1048576 / 2 ^ 22 :: rat)))
   \<and> (1024 < v \<and> v \<le> 1048576 \<longrightarrow>
        (\<exists>c. FormatSizeKB v = show_hundredths c @ '' MiB''
           \<and> \<bar>of_nat c / 100 - of_nat (unat v) / 1024\<bar>
               \<le> (1 / 200 + of_nat (unat v) / 1024 / 2 ^ 22 :: rat)))
   \<and> (v \<le> 1024 \<longrightarrow> FormatSizeKB v = show_nat (unat v) @ '' KiB'')
   \<and> FormatSizeKB 1048576 = ''1024.00 MiB''
   \<and> FormatSizeKB 2097152 = ''2.00 GiB''
   \<and> FormatSizeKB 2048 = ''2.00 MiB''
   \<and> FormatSizeKB 512 = ''512 KiB''"
proof -
  have samples: "FormatSizeKB 1048576 = ''1024.00 MiB''" "FormatSizeKB 2097152 = ''2.00 GiB''"
    "FormatSizeKB 2048 = ''2.00 MiB''" "FormatSizeKB 512 = ''512 KiB''"
    by (simp_all add: format_eval)
  consider (GiB) "1048576 < v" | (MiB) "1024 < v" "v \<le> 1048576" | (KiB) "v \<le> 1024"
    by (meson linorder_not_le)
  then have tiers:
    "(scaled_text '' GiB'' (FormatSizeKB v) \<longleftrightarrow> 1048576 < v)
     \<and> (scaled_text '' MiB'' (FormatSizeKB v) \<longleftrightarrow> 1024 < v \<and> v \<le> 1048576)
     \<and> (whole_text '' KiB'' (FormatSizeKB v) \<longleftrightarrow> v \<le> 1024)"
  proof cases
    case GiB
    then have "1024 < v" and "\<not> v \<le> 1048576" and "\<not> v \<le> 1024"
      by (simp_all add: word_le_nat_alt word_less_nat_alt)
    with GiB show ?thesis
      by (simp add: FormatSizeKB_GiB scaled_text_append whole_text_append
          two_decimals_show_hundredths)
  next
    case MiB
    then have "\<not> 1048576 < v" and "\<not> v \<le> 1024"
      by (simp_all add: word_le_nat_alt word_less_nat_alt)
    with MiB show ?thesis
      by (simp add: FormatSizeKB_MiB scaled_text_append whole_text_append
          two_decimals_show_hundredths)
  next
    case KiB
    then have "\<not> 1048576 < v" and "\<not> 1024 < v"
      by (simp_all add: word_le_nat_alt word_less_nat_alt)
    with KiB show ?thesis
      by (simp add: FormatSizeKB_KiB scaled_text_append whole_text_append show_nat_digits)
  qed
  have GiB_value: "1048576 < v \<longrightarrow>
        (\<exists>c. FormatSizeKB v = show_hundredths c @ '' GiB''
           \<and> \<bar>of_nat c / 100 - of_nat (unat v) / 1048576\<bar>
               \<le> (1 / 200 + of_nat (unat v) / 1048576 / 2 ^ 22 :: rat))"
  proof
    assume "1048576 < v"
    then have "FormatSizeKB v
        = show_hundredths (hundredths (float_div (float_of_u32 v) (1048576, 0))) @ '' GiB''"
      by (rule FormatSizeKB_GiB)
    moreover have "(0::nat) < 1048576"
      by simp
    then have "\<bar>of_nat (hundredths (float_div (float_of_u32 v) (1048576, 0))) / 100
                 - of_nat (unat v) / 1048576\<bar>
               \<le> (1 / 200 + of_nat (unat v) / 1048576 / 2 ^ 22 :: rat)"
      using FormatSizeKB_accuracy [of 1048576 v] by (simp only: of_nat_numeral)
    ultimately show "\<exists>c. FormatSizeKB v = show_hundredths c @ '' GiB''
           \<and> \<bar>of_nat c / 100 - of_nat (unat v) / 1048576\<bar>
               \<le> (1 / 200 + of_nat (unat v) / 1048576 / 2 ^ 22 :: rat)"
      by (intro exI conjI)
  qed
  have MiB_value: "1024 < v \<and> v \<le> 1048576 \<longrightarrow>
        (\<exists>c. FormatSizeKB v = show_hundredths c @ '' MiB''
           \<and> \<bar>of_nat c / 100 - of_nat (unat v) / 1024\<bar>
               \<le> (1 / 200 + of_nat (unat v) / 1024 / 2 ^ 22 :: rat))"
  proof
    assume "1024 < v \<and> v \<le> 1048576"
    then have "FormatSizeKB v
        = show_hundredths (hundredths (float_div (float_of_u32 v) (1024, 0))) @ '' MiB''"
      by (simp add: FormatSizeKB_MiB)
    moreover have "(0::nat) < 1024"
      by simp
    then have "\<bar>of_nat (hundredths (float_div (float_of_u32 v) (1024, 0))) / 100
                 - of_nat (unat v) / 1024\<bar>
               \<le> (1 / 200 + of_nat (unat v) / 1024 / 2 ^ 22 :: rat)"
      using FormatSizeKB_accuracy [of 1024 v] by (simp only: of_nat_numeral)
    ultimately show "\<exists>c. FormatSizeKB v = show_hundredths c @ '' MiB''
           \<and> \<bar>of_nat c / 100 - of_nat (unat v) / 1024\<bar>
               \<le> (1 / 200 + of_nat (unat v) / 1024 / 2 ^ 22 :: rat)"
      by (intro exI conjI)
  qed
  have KiB_value: "v \<le> 1024 \<longrightarrow> FormatSizeKB v = show_nat (unat v) @ '' KiB''"
    by (simp add: FormatSizeKB_KiB)
  from tiers have GiB_tier: "scaled_text '' GiB'' (FormatSizeKB v) \<longleftrightarrow> 1048576 < v"
    and MiB_tier: "scaled_text '' MiB'' (FormatSizeKB v) \<longleftrightarrow> 1024 < v \<and> v \<le> 1048576"
    and KiB_tier: "whole_text '' KiB'' (FormatSizeKB v) \<longleftrightarrow> v \<le> 1024"
    by (rule conjunct1, rule conjunct2 [THEN conjunct1], rule conjunct2 [THEN conjunct2])
  show ?thesis
    by (intro conjI GiB_tier MiB_tier KiB_tier GiB_value MiB_value KiB_value samples)
qed

theorem FormatSizeKB_tiers_witness:
  "scaled_text '' GiB'' (FormatSizeKB 3145728)
   \<and> \<not> scaled_text '' GiB'' (FormatSizeKB 1048576)
   \<and> scaled_text '' MiB'' (FormatSizeKB 1048576)
   \<and> whole_text '' KiB'' (FormatSizeKB 1024)
   \<and> FormatSizeKB 1024 = ''1024 KiB''"
proof -
  have "scaled_text '' GiB'' (FormatSizeKB 3145728)"
    using FormatSizeKB_tiers [of 3145728, THEN conjunct1] by simp
  moreover have "\<not> scaled_text '' GiB'' (FormatSizeKB 1048576)"
    using FormatSizeKB_tiers [of 1048576, THEN conjunct1] by simp
  moreover have "scaled_text '' MiB'' (FormatSizeKB 1048576)"
    using FormatSizeKB_tiers [of 1048576, THEN conjunct2, THEN conjunct1] by simp
  moreover have "whole_text '' KiB'' (FormatSizeKB 1024)"
    using FormatSizeKB_tiers [of 1024, THEN conjunct2, THEN conjunct2, THEN conjunct1] by simp
  moreover have "FormatSizeKB 1024 = ''1024 KiB''"
    by (simp add: format_eval)
  ultimately show ?thesis
    by (intro conjI)
qed

lemma FormatClockSpeed_present:
  "bIsPresent (domain frequencies ! unat d) \<Longrightarrow>
   FormatClockSpeed frequencies d
     = show_hundredths
         (hundredths (float_div (float_of_u32 (frequency (domain frequencies ! unat d))) (1000, 0)))
       @ '' MHz''"
  by (simp add: FormatClockSpeed_def printf_2f_scaled_fits)

text \<open>
  Claim C4. For a domain inside the array, \<^verbatim>\<open>FormatClockSpeed\<close> returns the marker
  \<open><not present>\<close> whenever the presence flag is false, whatever the frequency field
  holds. Otherwise it returns a number with two decimals followed by \<open>MHz\<close>, and the number
  is the frequency divided by 1000, up to half a hundredth and the rounding of single
  precision. A present frequency of 1815000 is printed as \<open>1815.00 MHz\<close>.
\<close>

theorem FormatClockSpeed_text:
  assumes "unat d < length (domain frequencies)"
  shows "(\<not> bIsPresent (domain frequencies ! unat d) \<longrightarrow>
            FormatClockSpeed frequencies d = ''<not present>'')
         \<and> (bIsPresent (domain frequencies ! unat d) \<longrightarrow>
              scaled_text '' MHz'' (FormatClockSpeed frequencies d)
              \<and> (\<exists>c. FormatClockSpeed frequencies d = show_hundredths c @ '' MHz''
                   \<and> \<bar>of_nat c / 100
                        - of_nat (unat (frequency (domain frequencies ! unat d))) / 1000\<bar>
                      \<le> (1 / 200
                          + of_nat (unat (frequency (domain frequencies ! unat d))) / 1000 / 2 ^ 22
                          :: rat)))
         \<and> (bIsPresent (domain frequencies ! unat d)
              \<and> frequency (domain frequencies ! unat d) = 1815000 \<longrightarrow>
              FormatClockSpeed frequencies d = ''1815.00 MHz'')"
proof -
  let ?f = "frequency (domain frequencies ! unat d)"
  let ?c = "hundredths (float_div (float_of_u32 ?f) (1000, 0))"
  have absent: "\<not> bIsPresent (domain frequencies ! unat d) \<longrightarrow>
      FormatClockSpeed frequencies d = ''<not present>''"
    by (simp add: FormatClockSpeed_def)
  have present: "bIsPresent (domain frequencies ! unat d) \<longrightarrow>
      scaled_text '' MHz'' (FormatClockSpeed frequencies d)
      \<and> (\<exists>c. FormatClockSpeed frequencies d = show_hundredths c @ '' MHz''
           \<and> \<bar>of_nat c / 100 - of_nat (unat ?f) / 1000\<bar>
              \<le> (1 / 200 + of_nat (unat ?f) / 1000 / 2 ^ 22 :: rat))"
  proof
    assume "bIsPresent (domain frequencies ! unat d)"
    then have rendered: "FormatClockSpeed frequencies d = show_hundredths ?c @ '' MHz''"
      by (rule FormatClockSpeed_present)
    have shape: "scaled_text '' MHz'' (FormatClockSpeed frequencies d)"
      by (simp add: rendered scaled_text_append two_decimals_show_hundredths)
    have "(0::nat) < 1000"
      by simp
    then have "\<bar>of_nat ?c / 100 - of_nat (unat ?f) / 1000\<bar>
                 \<le> (1 / 200 + of_nat (unat ?f) / 1000 / 2 ^ 22 :: rat)"
      using FormatSizeKB_accuracy [of 1000 ?f] by (simp only: of_nat_numeral)
    with rendered have "\<exists>c. FormatClockSpeed frequencies d = show_hundredths c @ '' MHz''
           \<and> \<bar>of_nat c / 100 - of_nat (unat ?f) / 1000\<bar>
              \<le> (1 / 200 + of_nat (unat ?f) / 1000 / 2 ^ 22 :: rat)"
      by (intro exI conjI)
    with shape show "scaled_text '' MHz'' (FormatClockSpeed frequencies d)
      \<and> (\<exists>c. FormatClockSpeed frequencies d = show_hundredths c @ '' MHz''
           \<and> \<bar>of_nat c / 100 - of_nat (unat ?f) / 1000\<bar>
              \<le> (1 / 200 + of_nat (unat ?f) / 1000 / 2 ^ 22 :: rat))"
      by (rule conjI)
  qed
  have sample: "bIsPresent (domain frequencies ! unat d) \<and> ?f = 1815000 \<longrightarrow>
      FormatClockSpeed frequencies d = ''1815.00 MHz''"
    by (simp add: format_eval)
  show ?thesis
    by (intro conjI absent present sample)
qed

theorem FormatClockSpeed_text_witness:
  "FormatClockSpeed sample_frequencies 0 = ''1815.00 MHz''
   \<and> FormatClockSpeed sample_frequencies 1 = ''<not present>''
   \<and> scaled_text '' MHz'' (FormatClockSpeed sample_frequencies 4)
   \<and> FormatClockSpeed sample_frequencies 4 = ''7000.50 MHz''"
proof -
  have present: "bIsPresent (domain sample_frequencies ! unat (0 :: NvU32))
      \<and> frequency (domain sample_frequencies ! unat (0 :: NvU32)) = 1815000"
    by (simp add: sample_frequencies_def)
  have "unat (0 :: NvU32) < length (domain sample_frequencies)"
    by (simp add: sample_frequencies_def)
  from FormatClockSpeed_text [OF this] present
  have "FormatClockSpeed sample_frequencies 0 = ''1815.00 MHz''"
    by blast
  moreover have "\<not> bIsPresent (domain sample_frequencies ! unat (1 :: NvU32))"
    by (simp add: sample_frequencies_def)
  then have "FormatClockSpeed sample_frequencies 1 = ''<not present>''"
    using FormatClockSpeed_text [of 1 sample_frequencies] by (simp add: sample_frequencies_def)
  moreover have "bIsPresent (domain sample_frequencies ! unat (4 :: NvU32))"
    by (simp add: sample_frequencies_def)
  then have "scaled_text '' MHz'' (FormatClockSpeed sample_frequencies 4)"
    using FormatClockSpeed_text [of 4 sample_frequencies] by (simp add: sample_frequencies_def)
  moreover have "FormatClockSpeed sample_frequencies 4 = ''7000.50 MHz''"
    by (simp add: sample_frequencies_def format_eval)
  ultimately show ?thesis
    by (intro conjI)
qed

text \<open>
  Claim C9. Both formatters are functions of their arguments alone: they take no NVAPI
  and return a string, no effects. \<^verbatim>\<open>FormatSizeKB\<close> returns a well-formed text for every
  size, and \<^verbatim>\<open>FormatClockSpeed\<close> for every sample and every domain inside the array; the
  text is at most 17 characters long, so the 128-byte buffer never cuts it. Equal
  arguments give equal texts, and the text of \<^verbatim>\<open>FormatClockSpeed\<close> depends on nothing but
  the entry of the domain it is asked for.
\<close>

theorem formatters_total:
  "(scaled_text '' GiB'' (FormatSizeKB v) \<or> scaled_text '' MiB'' (FormatSizeKB v)
      \<or> whole_text '' KiB'' (FormatSizeKB v))
   \<and> length (FormatSizeKB v) \<le> 17
   \<and> (v = w \<longrightarrow> FormatSizeKB v = FormatSizeKB w)
   \<and> (unat d < length (domain frequencies) \<longrightarrow>
        (FormatClockSpeed frequencies d = ''<not present>''
           \<or> scaled_text '' MHz'' (FormatClockSpeed frequencies d))
        \<and> length (FormatClockSpeed frequencies d) \<le> 17)
   \<and> (domain frequencies ! unat d = domain others ! unat d \<longrightarrow>
        FormatClockSpeed frequencies d = FormatClockSpeed others d)"
proof -
  consider (GiB) "1048576 < v" | (MiB) "1024 < v" "v \<le> 1048576" | (KiB) "v \<le> 1024"
    by (meson linorder_not_le)
  then have size: "(scaled_text '' GiB'' (FormatSizeKB v) \<or> scaled_text '' MiB'' (FormatSizeKB v)
      \<or> whole_text '' KiB'' (FormatSizeKB v)) \<and> length (FormatSizeKB v) \<le> 17"
  proof cases
    case GiB
    then show ?thesis
      using length_scaled [of 1048576 v]
      by (simp add: FormatSizeKB_GiB scaled_text_append two_decimals_show_hundredths)
  next
    case MiB
    then show ?thesis
      using length_scaled [of 1024 v]
      by (simp add: FormatSizeKB_MiB scaled_text_append two_decimals_show_hundredths)
  next
    case KiB
    then show ?thesis
      using length_show_u32 [of v]
      by (simp add: FormatSizeKB_KiB whole_text_append show_nat_digits)
  qed
  have clock: "(FormatClockSpeed frequencies d = ''<not present>''
           \<or> scaled_text '' MHz'' (FormatClockSpeed frequencies d))
        \<and> length (FormatClockSpeed frequencies d) \<le> 17"
  proof (cases "bIsPresent (domain frequencies ! unat d)")
    case True
    then show ?thesis
      using length_scaled [of 1000 "frequency (domain frequencies ! unat d)"]
      by (simp add: FormatClockSpeed_present scaled_text_append two_decimals_show_hundredths)
  next
    case False
    then show ?thesis
      by (simp add: FormatClockSpeed_def)
  qed
  have same: "domain frequencies ! unat d = domain others ! unat d \<longrightarrow>
      FormatClockSpeed frequencies d = FormatClockSpeed others d"
    by (simp add: FormatClockSpeed_def)
  show ?thesis
    using size clock same by simp
qed

theorem formatters_total_witness:
  "length (FormatSizeKB 4294967295) \<le> 17
   \<and> length (FormatClockSpeed sample_frequencies 4) \<le> 17
   \<and> FormatClockSpeed sample_frequencies 0
       = FormatClockSpeed (sample_frequencies\<lparr>ClockType := NV_GPU_CLOCK_FREQUENCIES_BASE_CLOCK\<rparr>) 0"
proof -
  have inside: "unat (4 :: NvU32) < length (domain sample_frequencies)"
    by (simp add: sample_frequencies_def)
  have same: "domain sample_frequencies ! unat (0 :: NvU32)
      = domain (sample_frequencies\<lparr>ClockType := NV_GPU_CLOCK_FREQUENCIES_BASE_CLOCK\<rparr>) ! unat (0 :: NvU32)"
    by simp
  from formatters_total [of 4294967295 4294967295 4 sample_frequencies sample_frequencies]
    formatters_total [of 0 0 0 sample_frequencies
      "sample_frequencies\<lparr>ClockType := NV_GPU_CLOCK_FREQUENCIES_BASE_CLOCK\<rparr>"]
    inside same
  show ?thesis
    by blast
qed

subsection \<open>The status report\<close>

text \<open>The program's report of one device is the report the specification describes.\<close>

lemma PrintGPUStatus_report: "PrintGPUStatus nv gpu = status_report nv gpu"
  by (simp add: PrintGPUStatus_def PrintGPUCurrentClocks_def PrintGPUCurrentTemperature_def
      PrintGPUCurrentFanSpeed_def PrintGPUCurrentMemoryUsage_def PrintError_text
      status_report_def query_diagnostic_def Let_def case_prod_beta)

lemma is_hex_digit_digit_char: "d < 16 \<Longrightarrow> is_hex_digit (digit_char d)"
  unfolding is_hex_digit_def digit_char_def by (rule nth_mem) simp

lemma diagnostic_line_query_diagnostic: "diagnostic_line (query_diagnostic status)"
  by (simp add: diagnostic_line_def query_diagnostic_def show_hex8_def newline_def
      is_hex_digit_digit_char)

lemma clock_text_FormatClockSpeed: "clock_text (FormatClockSpeed frequencies d)"
proof (cases "bIsPresent (domain frequencies ! unat d)")
  case True
  then show ?thesis
    by (simp add: clock_text_def FormatClockSpeed_present scaled_text_append
        two_decimals_show_hundredths)
next
  case False
  then show ?thesis
    by (simp add: clock_text_def FormatClockSpeed_def)
qed

text \<open>How often each field and each diagnostic occurs in the report of one device.\<close>

lemma query_diagnostic_simps:
  "field_named p (query_diagnostic status) = False"
  "populated_clock_field p (query_diagnostic status) = False"
  "is_diagnostic (query_diagnostic status) = True"
  by (simp_all add: query_diagnostic_def field_named_def populated_clock_field_def
      is_diagnostic_def)

lemma report_names: "occurrences (field_named ''GPU: '') (status_report nv gpu) = 1"
  by (simp add: status_report_def occurrences_def query_diagnostic_simps Let_def case_prod_beta)
     (simp add: field_named_def newline_def tab_def)

lemma report_graphics:
  "occurrences (populated_clock_field ''Graphics clock speed: '') (status_report nv gpu)
     = (if clocks_ok nv gpu then 1 else 0)"
  by (simp add: status_report_def occurrences_def query_diagnostic_simps clocks_ok_def Let_def
      case_prod_beta)
     (simp add: populated_clock_field_def newline_def tab_def clock_text_FormatClockSpeed)

lemma report_memory_clock:
  "occurrences (populated_clock_field ''Memory clock speed: '') (status_report nv gpu)
     = (if clocks_ok nv gpu then 1 else 0)"
  by (simp add: status_report_def occurrences_def query_diagnostic_simps clocks_ok_def Let_def
      case_prod_beta)
     (simp add: populated_clock_field_def newline_def tab_def clock_text_FormatClockSpeed)

lemma report_temperature:
  "occurrences (field_named ''Temperature: '') (status_report nv gpu)
     = (if thermal_ok nv gpu \<and> has_sensor nv gpu then 1 else 0)"
  by (simp add: status_report_def occurrences_def query_diagnostic_simps thermal_ok_def
      has_sensor_def Let_def case_prod_beta)
     (simp add: field_named_def newline_def tab_def)

lemma report_fan: "occurrences (field_named ''Fan speed: '') (status_report nv gpu) = 1"
  by (simp add: status_report_def occurrences_def query_diagnostic_simps Let_def case_prod_beta)
     (simp add: field_named_def newline_def tab_def)

lemma report_memory_usage:
  "occurrences (field_named ''Memory usage: '') (status_report nv gpu)
     = (if memory_ok nv gpu then 1 else 0)"
  by (simp add: status_report_def occurrences_def query_diagnostic_simps memory_ok_def Let_def
      case_prod_beta)
     (simp add: field_named_def newline_def tab_def)

lemma report_diagnostics:
  "occurrences is_diagnostic (status_report nv gpu)
     = (if clocks_ok nv gpu then 0 else 1) + (if thermal_ok nv gpu then 0 else 1)
       + (if memory_ok nv gpu then 0 else 1)"
  by (simp add: status_report_def occurrences_def query_diagnostic_simps clocks_ok_def
      thermal_ok_def memory_ok_def Let_def case_prod_beta)
     (simp add: is_diagnostic_def)

lemma diagnostic_line_Stdout: "diagnostic_line (Stdout s) = False"
  by (simp add: diagnostic_line_def)

lemma report_diagnostic_lines:
  "occurrences diagnostic_line (status_report nv gpu)
     = (if clocks_ok nv gpu then 0 else 1) + (if thermal_ok nv gpu then 0 else 1)
       + (if memory_ok nv gpu then 0 else 1)"
  by (simp add: status_report_def occurrences_def diagnostic_line_query_diagnostic
      diagnostic_line_Stdout clocks_ok_def thermal_ok_def memory_ok_def Let_def case_prod_beta)

text \<open>One pass of the sampling loop: the reports of the devices in turn, then the pause.\<close>

lemma one_pass:
  "fst (sampling_loop live gpus k (Suc 0))
     = concat (map (status_report (live k)) gpus) @ [Sleep 1000]"
proof -
  have "PrintGPUStatus (live k) = status_report (live k)"
    by (rule ext) (rule PrintGPUStatus_report)
  then show ?thesis
    by (simp add: Let_def)
qed

lemma occurrences_pass_some:
  assumes "\<And>x. occurrences P (f x) = (if Q x then 1 else 0)" and "\<not> P (Sleep n)"
  shows "occurrences P (concat (map f xs) @ [Sleep n]) = length (filter Q xs)"
  using assms by (induction xs) (simp_all add: occurrences_def)

lemma occurrences_pass_every:
  assumes "\<And>x. occurrences P (f x) = 1" and "\<not> P (Sleep n)"
  shows "occurrences P (concat (map f xs) @ [Sleep n]) = length xs"
  using assms by (induction xs) (simp_all add: occurrences_def)

lemma occurrences_pass_failures:
  assumes "\<And>x. occurrences P (f x)
             = (if A x then 0 else 1) + (if B x then 0 else 1) + (if C x then 0 else 1)"
    and "\<not> P (Sleep n)"
  shows "occurrences P (concat (map f xs) @ [Sleep n])
           = length (filter (\<lambda>x. \<not> A x) xs) + length (filter (\<lambda>x. \<not> B x) xs)
             + length (filter (\<lambda>x. \<not> C x) xs)"
proof (induction xs)
  case Nil
  show ?case using assms(2) by (simp add: occurrences_def)
next
  case (Cons x xs)
  have "occurrences P (concat (map f (x # xs)) @ [Sleep n])
          = occurrences P (f x) + occurrences P (concat (map f xs) @ [Sleep n])"
    by (simp add: occurrences_def)
  then show ?case
    by (simp add: Cons.IH assms(1))
qed

lemma Sleep_no_field:
  "\<not> field_named p (Sleep n)" "\<not> populated_clock_field p (Sleep n)"
  "\<not> is_diagnostic (Sleep n)" "\<not> diagnostic_line (Sleep n)"
  by (simp_all add: field_named_def populated_clock_field_def is_diagnostic_def
      diagnostic_line_def)

lemma main_next_pass:
  assumes "NvAPI_Initialize nv = NVAPI_OK" and "snd (EnumerateGPUs nv) \<noteq> []"
  shows "fst (main nv live (Suc fuel))
           = fst (main nv live fuel)
             @ concat (map (status_report (live fuel)) (snd (EnumerateGPUs nv))) @ [Sleep 1000]"
proof -
  have "PrintGPUStatus (live fuel) = status_report (live fuel)"
    by (rule ext) (rule PrintGPUStatus_report)
  then show ?thesis
    by (simp add: main_running [OF assms] sampling_loop_Suc del: sampling_loop.simps)
qed

text \<open>
  Claim C2. One pass of the sampling loop writes, for each device in turn, the report
  \<^verbatim>\<open>status_report\<close>, whatever any query answers; so does every further pass that
  \<^verbatim>\<open>main\<close> makes. In that report a failed clock, thermal or memory query puts one
  diagnostic line, with the status of the failed query, in the place of its own field or
  fields and touches nothing else. Counted over the pass: every device gets its name line
  and its fan field; the two populated clock fields appear for exactly the devices whose
  clock query is in order, the temperature field for exactly those whose thermal query is
  in order and reports a sensor, the memory field for exactly those whose memory query is
  in order; every failed clock, thermal or memory query yields exactly one diagnostic
  line, and nothing else is written to standard error. In particular, when exactly one of
  \<open>N\<close> devices fails its clock query, the pass holds \<open>N\<close> name lines and \<open>N - 1\<close> of each
  populated clock field, and exactly one diagnostic line when no other query fails.
\<close>

theorem PrintGPUStatus_isolates_failures:
  "PrintGPUStatus nv gpu = status_report nv gpu
   \<and> fst (sampling_loop live gpus k (Suc 0))
       = concat (map (status_report (live k)) gpus) @ [Sleep 1000]
   \<and> (NvAPI_Initialize nv = NVAPI_OK \<and> snd (EnumerateGPUs nv) \<noteq> [] \<longrightarrow>
        fst (main nv live (Suc fuel))
          = fst (main nv live fuel)
            @ concat (map (status_report (live fuel)) (snd (EnumerateGPUs nv))) @ [Sleep 1000])
   \<and> occurrences (field_named ''GPU: '') (fst (sampling_loop live gpus k (Suc 0))) = length gpus
   \<and> occurrences (populated_clock_field ''Graphics clock speed: '')
        (fst (sampling_loop live gpus k (Suc 0)))
       = length (filter (clocks_ok (live k)) gpus)
   \<and> occurrences (populated_clock_field ''Memory clock speed: '')
        (fst (sampling_loop live gpus k (Suc 0)))
       = length (filter (clocks_ok (live k)) gpus)
   \<and> occurrences (field_named ''Temperature: '') (fst (sampling_loop live gpus k (Suc 0)))
       = length (filter (\<lambda>g. thermal_ok (live k) g \<and> has_sensor (live k) g) gpus)
   \<and> occurrences (field_named ''Fan speed: '') (fst (sampling_loop live gpus k (Suc 0)))
       = length gpus
   \<and> occurrences (field_named ''Memory usage: '') (fst (sampling_loop live gpus k (Suc 0)))
       = length (filter (memory_ok (live k)) gpus)
   \<and> occurrences diagnostic_line (fst (sampling_loop live gpus k (Suc 0)))
       = length (filter (\<lambda>g. \<not> clocks_ok (live k) g) gpus)
         + length (filter (\<lambda>g. \<not> thermal_ok (live k) g) gpus)
         + length (filter (\<lambda>g. \<not> memory_ok (live k) g) gpus)
   \<and> occurrences is_diagnostic (fst (sampling_loop live gpus k (Suc 0)))
       = occurrences diagnostic_line (fst (sampling_loop live gpus k (Suc 0)))
   \<and> (length (filter (\<lambda>g. \<not> clocks_ok (live k) g) gpus) = 1 \<longrightarrow>
        occurrences (populated_clock_field ''Graphics clock speed: '')
          (fst (sampling_loop live gpus k (Suc 0))) = length gpus - 1
        \<and> occurrences (populated_clock_field ''Memory clock speed: '')
            (fst (sampling_loop live gpus k (Suc 0))) = length gpus - 1
        \<and> (length (filter (\<lambda>g. \<not> thermal_ok (live k) g) gpus) = 0
             \<and> length (filter (\<lambda>g. \<not> memory_ok (live k) g) gpus) = 0 \<longrightarrow>
            occurrences diagnostic_line (fst (sampling_loop live gpus k (Suc 0))) = 1))"
proof -
  let ?pass = "fst (sampling_loop live gpus k (Suc 0))"
  let ?nv = "live k"
  have report: "PrintGPUStatus nv gpu = status_report nv gpu"
    by (rule PrintGPUStatus_report)
  have pass: "?pass = concat (map (status_report ?nv) gpus) @ [Sleep 1000]"
    by (rule one_pass)
  have next_pass: "NvAPI_Initialize nv = NVAPI_OK \<and> snd (EnumerateGPUs nv) \<noteq> [] \<longrightarrow>
        fst (main nv live (Suc fuel))
          = fst (main nv live fuel)
            @ concat (map (status_report (live fuel)) (snd (EnumerateGPUs nv))) @ [Sleep 1000]"
    using main_next_pass [of nv live fuel] by blast
  have names: "occurrences (field_named ''GPU: '') ?pass = length gpus"
    unfolding pass by (rule occurrences_pass_every) (rule report_names, rule Sleep_no_field)
  have graphics: "occurrences (populated_clock_field ''Graphics clock speed: '') ?pass
       = length (filter (clocks_ok ?nv) gpus)"
    unfolding pass by (rule occurrences_pass_some) (rule report_graphics, rule Sleep_no_field)
  have memclk: "occurrences (populated_clock_field ''Memory clock speed: '') ?pass
       = length (filter (clocks_ok ?nv) gpus)"
    unfolding pass by (rule occurrences_pass_some) (rule report_memory_clock, rule Sleep_no_field)
  have temp: "occurrences (field_named ''Temperature: '') ?pass
       = length (filter (\<lambda>g. thermal_ok ?nv g \<and> has_sensor ?nv g) gpus)"
    unfolding pass by (rule occurrences_pass_some) (rule report_temperature, rule Sleep_no_field)
  have fan: "occurrences (field_named ''Fan speed: '') ?pass = length gpus"
    unfolding pass by (rule occurrences_pass_every) (rule report_fan, rule Sleep_no_field)
  have usage: "occurrences (field_named ''Memory usage: '') ?pass
       = length (filter (memory_ok ?nv) gpus)"
    unfolding pass by (rule occurrences_pass_some) (rule report_memory_usage, rule Sleep_no_field)
  have lines: "occurrences diagnostic_line ?pass
       = length (filter (\<lambda>g. \<not> clocks_ok ?nv g) gpus)
         + length (filter (\<lambda>g. \<not> thermal_ok ?nv g) gpus)
         + length (filter (\<lambda>g. \<not> memory_ok ?nv g) gpus)"
    unfolding pass
    by (rule occurrences_pass_failures) (rule report_diagnostic_lines, rule Sleep_no_field)
  have stderr: "occurrences is_diagnostic ?pass
       = length (filter (\<lambda>g. \<not> clocks_ok ?nv g) gpus)
         + length (filter (\<lambda>g. \<not> thermal_ok ?nv g) gpus)
         + length (filter (\<lambda>g. \<not> memory_ok ?nv g) gpus)"
    unfolding pass
    by (rule occurrences_pass_failures) (rule report_diagnostics, rule Sleep_no_field)
  have only: "occurrences is_diagnostic ?pass = occurrences diagnostic_line ?pass"
    by (simp only: lines stderr)
  have split: "length (filter (clocks_ok ?nv) gpus) + length (filter (\<lambda>g. \<not> clocks_ok ?nv g) gpus)
                 = length gpus"
    by (rule sum_length_filter_compl)
  have one: "length (filter (\<lambda>g. \<not> clocks_ok ?nv g) gpus) = 1 \<longrightarrow>
        occurrences (populated_clock_field ''Graphics clock speed: '') ?pass = length gpus - 1
        \<and> occurrences (populated_clock_field ''Memory clock speed: '') ?pass = length gpus - 1
        \<and> (length (filter (\<lambda>g. \<not> thermal_ok ?nv g) gpus) = 0
             \<and> length (filter (\<lambda>g. \<not> memory_ok ?nv g) gpus) = 0 \<longrightarrow>
            occurrences diagnostic_line ?pass = 1)"
    using split by (simp only: graphics memclk lines) arith
  show ?thesis
    by (intro conjI report pass next_pass names graphics memclk temp fan usage lines only one)
qed

theorem PrintGPUStatus_isolates_failures_witness:
  "status_report (sample_nv\<lparr>NvAPI_GPU_GetMemoryInfo :=
       \<lambda>h. (NVAPI_OK, \<lparr>curAvailableDedicatedVideoMemory = 6291456\<rparr>)\<rparr>) (sample_gpu 0)
     = [Stdout (''GPU: GeForce'' @ newline),
        Stdout (''-------------------------------'' @ newline),
        Stdout ''Graphics clock speed: 1815.00 MHz'', Stdout tab,
        Stdout ''Memory clock speed: 7000.50 MHz'', Stdout tab,
        Stdout newline,
        Stdout ''Temperature: 65C'', Stdout tab,
        Stdout (''Fan speed: 1500 RPM'' @ tab),
        Stdout newline,
        Stdout ''Memory usage: 2.00 GiB / 8.00 GiB'', Stdout tab,
        Stdout newline,
        Stdout (''-------------------------------'' @ newline),
        Stdout newline]
   \<and> status_report (sample_nv\<lparr>NvAPI_GPU_GetMemoryInfo :=
         \<lambda>h. (NVAPI_OK, \<lparr>curAvailableDedicatedVideoMemory = 6291456\<rparr>)\<rparr>) (sample_gpu 2)
       = [Stdout (''GPU: GeForce'' @ newline),
          Stdout (''-------------------------------'' @ newline),
          Stderr (''NvAPI_GPU_GetAllClockFrequencies failed:Error 0xFFFFFF98'' @ newline),
          Stdout newline,
          Stdout (''Fan speed: 0 RPM'' @ tab),
          Stdout newline,
          Stdout ''Memory usage: 2.00 GiB / 8.00 GiB'', Stdout tab,
          Stdout newline,
          Stdout (''-------------------------------'' @ newline),
          Stdout newline]
   \<and> fst (sampling_loop
         (\<lambda>k. sample_nv\<lparr>NvAPI_GPU_GetMemoryInfo :=
            \<lambda>h. (NVAPI_OK, \<lparr>curAvailableDedicatedVideoMemory = 6291456\<rparr>)\<rparr>)
         [sample_gpu 0, sample_gpu 2, sample_gpu 0] 0 (Suc 0))
       = status_report (sample_nv\<lparr>NvAPI_GPU_GetMemoryInfo :=
           \<lambda>h. (NVAPI_OK, \<lparr>curAvailableDedicatedVideoMemory = 6291456\<rparr>)\<rparr>) (sample_gpu 0)
         @ status_report (sample_nv\<lparr>NvAPI_GPU_GetMemoryInfo :=
             \<lambda>h. (NVAPI_OK, \<lparr>curAvailableDedicatedVideoMemory = 6291456\<rparr>)\<rparr>) (sample_gpu 2)
         @ status_report (sample_nv\<lparr>NvAPI_GPU_GetMemoryInfo :=
             \<lambda>h. (NVAPI_OK, \<lparr>curAvailableDedicatedVideoMemory = 6291456\<rparr>)\<rparr>) (sample_gpu 0)
         @ [Sleep 1000]
   \<and> fst (main sample_nv
         (\<lambda>k. sample_nv\<lparr>NvAPI_GPU_GetMemoryInfo :=
            \<lambda>h. (NVAPI_OK, \<lparr>curAvailableDedicatedVideoMemory = 6291456\<rparr>)\<rparr>) (Suc 0))
       = fst (main sample_nv
           (\<lambda>k. sample_nv\<lparr>NvAPI_GPU_GetMemoryInfo :=
              \<lambda>h. (NVAPI_OK, \<lparr>curAvailableDedicatedVideoMemory = 6291456\<rparr>)\<rparr>) 0)
         @ status_report (sample_nv\<lparr>NvAPI_GPU_GetMemoryInfo :=
             \<lambda>h. (NVAPI_OK, \<lparr>curAvailableDedicatedVideoMemory = 6291456\<rparr>)\<rparr>) (sample_gpu 0)
         @ status_report (sample_nv\<lparr>NvAPI_GPU_GetMemoryInfo :=
             \<lambda>h. (NVAPI_OK, \<lparr>curAvailableDedicatedVideoMemory = 6291456\<rparr>)\<rparr>) (sample_gpu 2)
         @ [Sleep 1000]
   \<and> occurrences (field_named ''GPU: '')
        (fst (sampling_loop
           (\<lambda>k. sample_nv\<lparr>NvAPI_GPU_GetMemoryInfo :=
              \<lambda>h. (NVAPI_OK, \<lparr>curAvailableDedicatedVideoMemory = 6291456\<rparr>)\<rparr>)
           [sample_gpu 0, sample_gpu 2, sample_gpu 0] 0 (Suc 0)))
       = 3
   \<and> occurrences (populated_clock_field ''Graphics clock speed: '')
        (fst (sampling_loop
           (\<lambda>k. sample_nv\<lparr>NvAPI_GPU_GetMemoryInfo :=
              \<lambda>h. (NVAPI_OK, \<lparr>curAvailableDedicatedVideoMemory = 6291456\<rparr>)\<rparr>)
           [sample_gpu 0, sample_gpu 2, sample_gpu 0] 0 (Suc 0)))
       = 2
   \<and> occurrences (populated_clock_field ''Memory clock speed: '')
        (fst (sampling_loop
           (\<lambda>k. sample_nv\<lparr>NvAPI_GPU_GetMemoryInfo :=
              \<lambda>h. (NVAPI_OK, \<lparr>curAvailableDedicatedVideoMemory = 6291456\<rparr>)\<rparr>)
           [sample_gpu 0, sample_gpu 2, sample_gpu 0] 0 (Suc 0)))
       = 2
   \<and> occurrences (field_named ''Fan speed: '')
        (fst (sampling_loop
           (\<lambda>k. sample_nv\<lparr>NvAPI_GPU_GetMemoryInfo :=
              \<lambda>h. (NVAPI_OK, \<lparr>curAvailableDedicatedVideoMemory = 6291456\<rparr>)\<rparr>)
           [sample_gpu 0, sample_gpu 2, sample_gpu 0] 0 (Suc 0)))
       = 3
   \<and> occurrences diagnostic_line
        (fst (sampling_loop
           (\<lambda>k. sample_nv\<lparr>NvAPI_GPU_GetMemoryInfo :=
              \<lambda>h. (NVAPI_OK, \<lparr>curAvailableDedicatedVideoMemory = 6291456\<rparr>)\<rparr>)
           [sample_gpu 0, sample_gpu 2, sample_gpu 0] 0 (Suc 0)))
       = 1"
proof -
  let ?nv = "sample_nv\<lparr>NvAPI_GPU_GetMemoryInfo :=
               \<lambda>h. (NVAPI_OK, \<lparr>curAvailableDedicatedVideoMemory = 6291456\<rparr>)\<rparr>"
  let ?gpus = "[sample_gpu 0, sample_gpu 2, sample_gpu 0]"
  let ?pass = "fst (sampling_loop (\<lambda>k. ?nv) ?gpus 0 (Suc 0))"
  have init: "NvAPI_Initialize sample_nv = NVAPI_OK"
    by (simp add: sample_nv_def NVAPI_OK_def)
  have enum: "snd (EnumerateGPUs sample_nv) \<noteq> []"
    by (simp add: EnumerateGPUs_sample)
  have clocks: "length (filter (\<lambda>g. \<not> clocks_ok ?nv g) ?gpus) = 1"
    by (simp add: clocks_ok_def sample_nv_def sample_gpu_def NVAPI_OK_def)
  have thermal: "length (filter (\<lambda>g. \<not> thermal_ok ?nv g) ?gpus) = 0"
    by (simp add: thermal_ok_def sample_nv_def sample_gpu_def NVAPI_OK_def)
  have memory: "length (filter (\<lambda>g. \<not> memory_ok ?nv g) ?gpus) = 0"
    by (simp add: memory_ok_def sample_nv_def sample_gpu_def NVAPI_OK_def)
  have graphics_text: "FormatClockSpeed sample_frequencies NVAPI_GPU_PUBLIC_CLOCK_GRAPHICS
                         = ''1815.00 MHz''"
    by (simp add: NVAPI_GPU_PUBLIC_CLOCK_GRAPHICS_def sample_frequencies_def format_eval)
  have memory_text: "FormatClockSpeed sample_frequencies NVAPI_GPU_PUBLIC_CLOCK_MEMORY
                       = ''7000.50 MHz''"
    by (simp add: NVAPI_GPU_PUBLIC_CLOCK_MEMORY_def sample_frequencies_def format_eval)
  have total: "FormatSizeKB 8388608 = ''8.00 GiB''"
    by (simp add: format_eval)
  have used: "FormatSizeKB (8388608 - 6291456) = ''2.00 GiB''"
    by (simp add: format_eval)
  have temperature: "show_int (sint (65 :: 32 word)) = ''65''"
    by (simp add: show_int_def show_nat_eval)
  have rpm: "show_nat (unat (1500 :: NvU32)) = ''1500''"
    by (simp add: show_nat_eval)
  have answering: "status_report ?nv (sample_gpu 0)
     = [Stdout (''GPU: GeForce'' @ newline),
        Stdout (''-------------------------------'' @ newline),
        Stdout ''Graphics clock speed: 1815.00 MHz'', Stdout tab,
        Stdout ''Memory clock speed: 7000.50 MHz'', Stdout tab,
        Stdout newline,
        Stdout ''Temperature: 65C'', Stdout tab,
        Stdout (''Fan speed: 1500 RPM'' @ tab),
        Stdout newline,
        Stdout ''Memory usage: 2.00 GiB / 8.00 GiB'', Stdout tab,
        Stdout newline,
        Stdout (''-------------------------------'' @ newline),
        Stdout newline]"
    using graphics_text memory_text total used temperature rpm
    by (simp add: status_report_def sample_nv_def sample_gpu_def NVAPI_OK_def)
  have failing: "status_report ?nv (sample_gpu 2)
     = [Stdout (''GPU: GeForce'' @ newline),
        Stdout (''-------------------------------'' @ newline),
        Stderr (''NvAPI_GPU_GetAllClockFrequencies failed:Error 0xFFFFFF98'' @ newline),
        Stdout newline,
        Stdout (''Fan speed: 0 RPM'' @ tab),
        Stdout newline,
        Stdout ''Memory usage: 2.00 GiB / 8.00 GiB'', Stdout tab,
        Stdout newline,
        Stdout (''-------------------------------'' @ newline),
        Stdout newline]"
    using total used
    by (simp add: status_report_def query_diagnostic_def sample_nv_def sample_gpu_def
        NVAPI_OK_def show_hex8_def show_nat_eval)
  note all = PrintGPUStatus_isolates_failures
    [of sample_nv "sample_gpu 0" "\<lambda>k. ?nv" ?gpus 0 0]
  note from_pass = all [THEN conjunct2]
  note from_main = from_pass [THEN conjunct2]
  note from_names = from_main [THEN conjunct2]
  note from_fan = from_names [THEN conjunct2, THEN conjunct2, THEN conjunct2, THEN conjunct2]
  note from_lines = from_fan [THEN conjunct2, THEN conjunct2]
  note one = from_lines [THEN conjunct2, THEN conjunct2, THEN mp, OF clocks]
  have pass: "?pass = status_report ?nv (sample_gpu 0) @ status_report ?nv (sample_gpu 2)
                      @ status_report ?nv (sample_gpu 0) @ [Sleep 1000]"
    using from_pass [THEN conjunct1] by (simp del: sampling_loop.simps)
  have next_pass: "fst (main sample_nv (\<lambda>k. ?nv) (Suc 0))
       = fst (main sample_nv (\<lambda>k. ?nv) 0)
         @ status_report ?nv (sample_gpu 0) @ status_report ?nv (sample_gpu 2) @ [Sleep 1000]"
    using from_main [THEN conjunct1, THEN mp, OF conjI, OF init enum]
    by (simp only: EnumerateGPUs_sample snd_conv list.map concat.simps append_Nil2 append_assoc)
  have names: "occurrences (field_named ''GPU: '') ?pass = 3"
    using from_names [THEN conjunct1] by (simp del: sampling_loop.simps)
  have graphics: "occurrences (populated_clock_field ''Graphics clock speed: '') ?pass = 2"
    using one [THEN conjunct1] by (simp del: sampling_loop.simps)
  have memclk: "occurrences (populated_clock_field ''Memory clock speed: '') ?pass = 2"
    using one [THEN conjunct2, THEN conjunct1] by (simp del: sampling_loop.simps)
  have fan: "occurrences (field_named ''Fan speed: '') ?pass = 3"
    using from_fan [THEN conjunct1] by (simp del: sampling_loop.simps)
  have lines: "occurrences diagnostic_line ?pass = 1"
    using one [THEN conjunct2, THEN conjunct2, THEN mp, OF conjI, OF thermal memory] .
  show ?thesis
    by (intro conjI answering failing pass next_pass names graphics memclk fan lines)
qed

end
